theory Spec2Isabelle
  imports
    Complex_Main
    "HOL-Library.Product_Lexorder"
    "HOL-Library.List_Lexorder"
    "HOL-Library.Char_ord"
begin

section \<open>Python values used by the recommendation engine\<close>

text \<open>
  The engine is \<^verbatim>\<open>fitting_system/ai_modules/recommendation_engine.py\<close>.
  A Python float is the real number it denotes (a finite double; NaN and the infinities
  are left out), a float literal is the nearest double and a float division rounds the
  exact quotient to the nearest double. Python ints are \<^typ>\<open>int\<close>, \<^verbatim>\<open>str\<close> is
  \<^typ>\<open>string\<close> (ASCII), \<^verbatim>\<open>None\<close> is \<open>None\<close> of an option type, a
  \<^verbatim>\<open>dict\<close> is a map. An exception is a value of \<open>py_error\<close>; a function that can
  raise returns \<open>py_error + 'a\<close> with \<open>Inl\<close> for the exception.
\<close>

datatype py_error = KeyError | ValueError | IndexError | ZeroDivisionError

subsection \<open>Floats\<close>

text \<open>
  Rounding to the nearest integer, ties to the even one; the binary exponent of a double
  (at least -1022, below which doubles are subnormal); and rounding of a real number to
  the nearest double, which has 53 significant bits. A quotient beyond the largest double
  is \<^verbatim>\<open>inf\<close> in Python; here it stays a number above every double, which compares
  with a threshold the same way.
\<close>

definition round_half_even :: "real \<Rightarrow> int" where
  "round_half_even t =
     (let f = \<lfloor>t\<rfloor>; r = t - of_int f
      in if r < 1 / 2 then f else if r > 1 / 2 then f + 1 else if even f then f else f + 1)"

definition double_exponent :: "real \<Rightarrow> int" where
  "double_exponent x = max \<lfloor>log 2 \<bar>x\<bar>\<rfloor> (- 1022)"

definition round_double :: "real \<Rightarrow> real" where
  "round_double x =
     (if x = 0 then 0
      else (let q = 2 powr (of_int (double_exponent x) - 52)
            in of_int (round_half_even (x / q)) * q))"

text \<open>\<^verbatim>\<open>x / y\<close> on floats: ZeroDivisionError when the divisor is zero.\<close>

definition float_div :: "real \<Rightarrow> real \<Rightarrow> py_error + real" where
  "float_div x y = (if y = 0 then Inl ZeroDivisionError else Inr (round_double (x / y)))"

text \<open>\<^verbatim>\<open>d.get(k, default)\<close>\<close>

definition dict_get :: "('k \<rightharpoonup> 'v) \<Rightarrow> 'k \<Rightarrow> 'v \<Rightarrow> 'v" where
  "dict_get d k dflt = (case d k of None \<Rightarrow> dflt | Some v \<Rightarrow> v)"

text \<open>\<^verbatim>\<open>d[k]\<close> on a dict: KeyError when the key is absent.\<close>

definition dict_item :: "('k \<rightharpoonup> 'v) \<Rightarrow> 'k \<Rightarrow> py_error + 'v" where
  "dict_item d k = (case d k of None \<Rightarrow> Inl KeyError | Some v \<Rightarrow> Inr v)"

text \<open>\<^verbatim>\<open>xs.index(x)\<close>: the first position of \<open>x\<close>, ValueError when there is none.\<close>

fun list_index :: "'a list \<Rightarrow> 'a \<Rightarrow> py_error + nat" where
  "list_index [] x = Inl ValueError"
| "list_index (y # ys) x =
     (if y = x then Inr 0
      else (case list_index ys x of Inl e \<Rightarrow> Inl e | Inr i \<Rightarrow> Inr (Suc i)))"

text \<open>\<^verbatim>\<open>xs[i]\<close> on a list: a negative index counts from the end, IndexError out of range.\<close>

definition list_item :: "'a list \<Rightarrow> int \<Rightarrow> py_error + 'a" where
  "list_item xs i =
     (let j = (if i < 0 then i + int (length xs) else i)
      in if j < 0 \<or> int (length xs) \<le> j then Inl IndexError else Inr (xs ! nat j))"

text \<open>\<^verbatim>\<open>xs[:limit]\<close>: a negative limit drops that many elements from the end.\<close>

definition slice_to :: "'a list \<Rightarrow> int \<Rightarrow> 'a list" where
  "slice_to xs limit =
     (if 0 \<le> limit then take (nat limit) xs else take (nat (int (length xs) + limit)) xs)"

text \<open>\<^verbatim>\<open>s.upper()\<close>, on ASCII strings: the letters a..z become A..Z.\<close>

definition upper_char :: "char \<Rightarrow> char" where
  "upper_char c =
     (case map_of (zip ''abcdefghijklmnopqrstuvwxyz'' ''ABCDEFGHIJKLMNOPQRSTUVWXYZ'') c of
        None \<Rightarrow> c | Some u \<Rightarrow> u)"

definition upper :: "string \<Rightarrow> string" where
  "upper s = map upper_char s"

section \<open>Class constants\<close>

type_synonym measurements = "string \<rightharpoonup> real"

definition FIT_RECOMMENDATIONS :: "string \<rightharpoonup> (string \<rightharpoonup> real)" where
  "FIT_RECOMMENDATIONS =
     [''slim'' \<mapsto> [''min_ratio'' \<mapsto> round_double (14 / 10),
                   ''max_ratio'' \<mapsto> round_double (25 / 10)],
      ''regular'' \<mapsto> [''min_ratio'' \<mapsto> round_double (115 / 100),
                      ''max_ratio'' \<mapsto> round_double (14 / 10)],
      ''oversize'' \<mapsto> [''min_ratio'' \<mapsto> round_double 0,
                       ''max_ratio'' \<mapsto> round_double (115 / 100)]]"

text \<open>The factor is the float 2.0; the product of a double and 2.0 is exact.\<close>

definition WIDTH_TO_CIRCUMFERENCE_FACTOR :: real where
  "WIDTH_TO_CIRCUMFERENCE_FACTOR = 2"

record garment_config =
  primary :: "string list"
  secondary :: "string list"
  fit_focus :: string

definition GARMENT_MEASUREMENTS :: "string \<rightharpoonup> garment_config" where
  "GARMENT_MEASUREMENTS =
     [''shirt'' \<mapsto> \<lparr>primary = [''chest'', ''shoulder_width''],
                   secondary = [''arm_length'', ''torso_length''], fit_focus = ''chest''\<rparr>,
      ''pants'' \<mapsto> \<lparr>primary = [''waist'', ''hip'', ''inseam''],
                   secondary = [''thigh''], fit_focus = ''waist''\<rparr>,
      ''dress'' \<mapsto> \<lparr>primary = [''chest'', ''waist'', ''hip''],
                   secondary = [''torso_length''], fit_focus = ''waist''\<rparr>,
      ''jacket'' \<mapsto> \<lparr>primary = [''chest'', ''shoulder_width''],
                    secondary = [''arm_length'', ''torso_length''], fit_focus = ''chest''\<rparr>,
      ''skirt'' \<mapsto> \<lparr>primary = [''waist'', ''hip''],
                   secondary = [''torso_length''], fit_focus = ''waist''\<rparr>]"

definition BODY_SHAPE_ADJUSTMENTS :: "string \<rightharpoonup> (string \<rightharpoonup> int)" where
  "BODY_SHAPE_ADJUSTMENTS =
     [''inverted_triangle'' \<mapsto>
        [''shirt'' \<mapsto> 1, ''jacket'' \<mapsto> 1, ''pants'' \<mapsto> - 1, ''dress'' \<mapsto> 0, ''skirt'' \<mapsto> - 1],
      ''triangle'' \<mapsto>
        [''shirt'' \<mapsto> - 1, ''jacket'' \<mapsto> 0, ''pants'' \<mapsto> 1, ''dress'' \<mapsto> 0, ''skirt'' \<mapsto> 1],
      ''oval'' \<mapsto>
        [''shirt'' \<mapsto> 1, ''jacket'' \<mapsto> 1, ''pants'' \<mapsto> 1, ''dress'' \<mapsto> 1, ''skirt'' \<mapsto> 1],
      ''hourglass'' \<mapsto>
        [''shirt'' \<mapsto> 0, ''jacket'' \<mapsto> 0, ''pants'' \<mapsto> 0, ''dress'' \<mapsto> - 1, ''skirt'' \<mapsto> 0],
      ''rectangle'' \<mapsto>
        [''shirt'' \<mapsto> 0, ''jacket'' \<mapsto> 0, ''pants'' \<mapsto> 0, ''dress'' \<mapsto> 0, ''skirt'' \<mapsto> 0]]"

definition SIZE_ORDER :: "string list" where
  "SIZE_ORDER = [''XS'', ''S'', ''M'', ''L'', ''XL'', ''XXL'', ''XXXL'']"

section \<open>Body-shape adjustment and fit classification\<close>

text \<open>Line 186: \<^verbatim>\<open>BODY_SHAPE_ADJUSTMENTS.get(body_shape, {}).get(garment_type, 0)\<close>.\<close>

definition adjustment_step :: "string \<Rightarrow> string \<Rightarrow> int" where
  "adjustment_step body_shape garment_type =
     dict_get (dict_get BODY_SHAPE_ADJUSTMENTS body_shape Map.empty) garment_type 0"

text \<open>
  The \<^verbatim>\<open>try\<close> block holds the lookup of the index, the clamp and the indexing; the
  handler catches ValueError only, so any other exception of the block leaves the function.
\<close>

definition apply_body_shape_adjustment :: "string \<Rightarrow> string \<Rightarrow> string \<Rightarrow> py_error + string" where
  "apply_body_shape_adjustment base_size body_shape garment_type =
     (let adjustment = adjustment_step body_shape garment_type
      in if adjustment = 0 then Inr base_size
         else
           (case
              (case list_index SIZE_ORDER (upper base_size) of
                 Inl e \<Rightarrow> Inl e
               | Inr current_index \<Rightarrow>
                   (let new_index = int current_index + adjustment;
                        new_index = max 0 (min new_index (int (length SIZE_ORDER) - 1))
                    in list_item SIZE_ORDER new_index))
            of Inl ValueError \<Rightarrow> Inr base_size
             | Inl e \<Rightarrow> Inl e
             | Inr s \<Rightarrow> Inr s))"

text \<open>\<^verbatim>\<open>FIT_RECOMMENDATIONS[fit]['min_ratio']\<close>\<close>

definition fit_min_ratio :: "string \<Rightarrow> py_error + real" where
  "fit_min_ratio fit =
     (case dict_item FIT_RECOMMENDATIONS fit of
        Inl e \<Rightarrow> Inl e
      | Inr band \<Rightarrow> dict_item band ''min_ratio'')"

definition recommend_fit :: "measurements \<Rightarrow> py_error + string" where
  "recommend_fit measurements =
     (let chest = dict_get measurements ''chest'' 0;
          waist = dict_get measurements ''waist'' 0
      in if waist = 0 then Inr ''regular''
         else
           (case float_div chest waist of
              Inl e \<Rightarrow> Inl e
            | Inr ratio \<Rightarrow>
                (case fit_min_ratio ''slim'' of
                   Inl e \<Rightarrow> Inl e
                 | Inr slim_min \<Rightarrow>
                     if ratio \<ge> slim_min then Inr ''slim''
                     else
                       (case fit_min_ratio ''regular'' of
                          Inl e \<Rightarrow> Inl e
                        | Inr regular_min \<Rightarrow>
                            if ratio \<ge> regular_min then Inr ''regular''
                            else Inr ''oversize''))))"

text \<open>The order of the fit tiers that the specification names: oversize, regular, slim.\<close>

definition fit_tier :: "string \<Rightarrow> nat option" where
  "fit_tier fit =
     (if fit = ''oversize'' then Some 0
      else if fit = ''regular'' then Some 1
      else if fit = ''slim'' then Some 2
      else None)"

section \<open>The catalogue the engine reads\<close>

text \<open>
  The Django models (\<^verbatim>\<open>fitting_system.models\<close>) and the colour analyser
  (\<^verbatim>\<open>SkinToneAnalyzer.get_recommended_colors\<close>) are outside this file of the
  repository; they are a parameter of every function. A table is the list of its rows in
  the order of their primary keys, which is the order \<^verbatim>\<open>.first()\<close> imposes on an
  unordered queryset and the order taken for iterating one, so that \<^verbatim>\<open>.first()\<close>
  is the head of a filtered table. A foreign key is modelled by what the engine reads
  through it: the product's id, the size's name, the colour row. A variant carries the
  quantity of its inventory row.
\<close>

record Size =
  size_name :: string
  chest_min :: real
  chest_max :: real
  waist_min :: real
  waist_max :: real

record Color =
  color_name :: string
  hex_code :: string

record Product =
  product_id :: int
  product_name :: string
  product_category :: string
  product_gender :: string
  product_fit_type :: string

record ProductVariant =
  variant_product :: int
  variant_size :: string
  variant_color :: Color
  inventory_quantity :: int

text \<open>
  A scan: a numeric field holds the float that \<^verbatim>\<open>float(...)\<close> makes of the stored
  value; an optional field is \<open>None\<close> when the stored value is \<^verbatim>\<open>None\<close>. For the
  undertone the outer \<open>None\<close> says that the scan has no such attribute and \<open>Some None\<close>
  that the attribute is \<^verbatim>\<open>None\<close>; the body shape is read with
  \<^verbatim>\<open>or 'rectangle'\<close>, which treats both alike.
\<close>

record BodyScan =
  scan_height :: real
  scan_chest :: real
  scan_waist :: real
  scan_shoulder_width :: real
  scan_hip :: "real option"
  scan_inseam :: "real option"
  scan_torso_length :: "real option"
  scan_arm_length :: "real option"
  scan_body_shape :: "string option"
  scan_undertone :: "string option option"
  scan_skin_tone :: string

record catalogue =
  Size_objects :: "Size list"
  Color_objects :: "Color list"
  Product_objects :: "Product list"
  ProductVariant_objects :: "ProductVariant list"
  get_recommended_colors :: "string \<Rightarrow> string option \<Rightarrow> string list"

section \<open>Size matching\<close>

text \<open>
  \<^verbatim>\<open>order_by('chest_min')\<close> is a stable sort of the table by that column (rows of
  equal \<^verbatim>\<open>chest_min\<close> stay in table order, where a database is free to choose);
  \<^verbatim>\<open>exists()\<close> followed by \<^verbatim>\<open>first()\<close> is a case distinction on the filtered
  table; the \<^verbatim>\<open>for\<close> loop that returns at the first range holding the chest value is
  \<^const>\<open>find\<close>, and falling out of it reaches the last \<^verbatim>\<open>return 'M'\<close>.
\<close>

definition recommend_size :: "catalogue \<Rightarrow> measurements \<Rightarrow> string" where
  "recommend_size db measurements =
     (let chest = dict_get measurements ''chest'' 0 * WIDTH_TO_CIRCUMFERENCE_FACTOR;
          waist = dict_get measurements ''waist'' 0 * WIDTH_TO_CIRCUMFERENCE_FACTOR;
          height = dict_get measurements ''height'' 0;
          shoulder = dict_get measurements ''shoulder_width'' 0 * WIDTH_TO_CIRCUMFERENCE_FACTOR;
          matching_sizes =
            filter (\<lambda>s. chest_min s \<le> chest \<and> chest_max s \<ge> chest \<and>
                        waist_min s \<le> waist \<and> waist_max s \<ge> waist) (Size_objects db)
      in case matching_sizes of
           s # _ \<Rightarrow> size_name s
         | [] \<Rightarrow>
             (let all_sizes = sort_key chest_min (Size_objects db)
              in if all_sizes = [] then ''M''
                 else if chest < chest_min (hd all_sizes) then size_name (hd all_sizes)
                 else if chest > chest_max (last all_sizes) then size_name (last all_sizes)
                 else
                   (case find (\<lambda>sz. chest_min sz \<le> chest \<and> chest \<le> chest_max sz)
                           all_sizes of
                      Some sz \<Rightarrow> size_name sz
                    | None \<Rightarrow> ''M'')))"

definition recommend_size_for_garment ::
    "catalogue \<Rightarrow> measurements \<Rightarrow> string \<Rightarrow> string \<Rightarrow> py_error + string" where
  "recommend_size_for_garment db measurements garment_type body_shape =
     (case dict_item GARMENT_MEASUREMENTS ''shirt'' of
        Inl e \<Rightarrow> Inl e
      | Inr shirt \<Rightarrow>
          (let config = dict_get GARMENT_MEASUREMENTS garment_type shirt;
               focus = fit_focus config;
               focus_value = dict_get measurements focus 0 * WIDTH_TO_CIRCUMFERENCE_FACTOR;
               matching_sizes =
                 (if focus = ''chest'' then
                    filter (\<lambda>s. chest_min s \<le> focus_value \<and> chest_max s \<ge> focus_value)
                      (Size_objects db)
                  else if focus = ''waist'' then
                    filter (\<lambda>s. waist_min s \<le> focus_value \<and> waist_max s \<ge> focus_value)
                      (Size_objects db)
                  else
                    filter (\<lambda>s. chest_min s \<le> focus_value \<and> chest_max s \<ge> focus_value)
                      (Size_objects db));
               base_size =
                 (case matching_sizes of
                    s # _ \<Rightarrow> size_name s
                  | [] \<Rightarrow> recommend_size db measurements)
           in apply_body_shape_adjustment base_size body_shape garment_type))"

definition recommend_colors :: "catalogue \<Rightarrow> string \<Rightarrow> string option \<Rightarrow> string list" where
  "recommend_colors db skin_tone undertone = get_recommended_colors db skin_tone undertone"

section \<open>Product scoring\<close>

text \<open>Line 284: the variants of a product whose inventory quantity is positive.\<close>

definition available_variants :: "catalogue \<Rightarrow> Product \<Rightarrow> ProductVariant list" where
  "available_variants db product =
     filter (\<lambda>v. variant_product v = product_id product \<and> inventory_quantity v > 0)
       (ProductVariant_objects db)"

text \<open>The body of the loop over the products: \<open>None\<close> is its \<^verbatim>\<open>continue\<close>.\<close>

definition score_product ::
    "catalogue \<Rightarrow> string \<Rightarrow> string \<Rightarrow> Color list \<Rightarrow> Product \<Rightarrow> int option" where
  "score_product db recommended_size recommended_fit recommended_colors product =
     (let available = available_variants db product
      in if available = [] then None
         else
           (let priority = 0;
                priority = (if product_fit_type product = recommended_fit
                            then priority + 15 else priority);
                size_variants = filter (\<lambda>v. variant_size v = recommended_size) available;
                priority = (if size_variants \<noteq> [] then priority + 10 else priority);
                matching_color_variants =
                  filter (\<lambda>v. variant_color v \<in> set recommended_colors) available;
                priority = (if matching_color_variants \<noteq> [] then priority + 10 else priority);
                priority = priority + 5
            in Some priority))"

fun score_products ::
    "catalogue \<Rightarrow> string \<Rightarrow> string \<Rightarrow> Color list \<Rightarrow> Product list \<Rightarrow>
     (Product \<times> int) list \<Rightarrow> (Product \<times> int) list" where
  "score_products db rs rf rc [] recommendations = recommendations"
| "score_products db rs rf rc (product # products) recommendations =
     (case score_product db rs rf rc product of
        None \<Rightarrow> score_products db rs rf rc products recommendations
      | Some priority \<Rightarrow>
          score_products db rs rf rc products (recommendations @ [(product, priority)]))"

text \<open>
  \<^verbatim>\<open>sort(key=lambda x: x[1], reverse=True)\<close> is stable: entries of equal priority
  keep their order. That is the stable ascending sort by the negated priority.
\<close>

definition sort_by_priority :: "(Product \<times> int) list \<Rightarrow> (Product \<times> int) list" where
  "sort_by_priority recommendations = sort_key (\<lambda>x. - snd x) recommendations"

definition recommend_products ::
    "catalogue \<Rightarrow> measurements \<Rightarrow> string \<Rightarrow> string \<Rightarrow> int \<Rightarrow>
     py_error + (Product \<times> int) list" where
  "recommend_products db measurements skin_tone gender limit =
     (let recommended_size = recommend_size db measurements
      in case recommend_fit measurements of
           Inl e \<Rightarrow> Inl e
         | Inr recommended_fit \<Rightarrow>
             (let recommended_color_names = recommend_colors db skin_tone (Some ''warm'');
                  recommended_colors =
                    filter (\<lambda>c. color_name c \<in> set recommended_color_names) (Color_objects db);
                  products =
                    filter (\<lambda>p. product_gender p = gender \<or> product_gender p = ''unisex'')
                      (Product_objects db);
                  recommendations =
                    score_products db recommended_size recommended_fit recommended_colors
                      products []
              in Inr (slice_to (sort_by_priority recommendations) limit)))"

section \<open>Variant matching\<close>

text \<open>
  The measurements dict of a scan: the four required fields, then each optional field
  whose value is truthy (present and not zero). Both callers build the same dict; they add
  the optional keys in a different order, which a dict with distinct keys does not record.
\<close>

definition add_if_truthy :: "measurements \<Rightarrow> string \<Rightarrow> real option \<Rightarrow> measurements" where
  "add_if_truthy measurements k field =
     (case field of
        None \<Rightarrow> measurements
      | Some v \<Rightarrow> if v = 0 then measurements else measurements(k \<mapsto> v))"

definition scan_measurements :: "BodyScan \<Rightarrow> measurements" where
  "scan_measurements body_scan =
     (let measurements = [''height'' \<mapsto> scan_height body_scan,
                          ''chest'' \<mapsto> scan_chest body_scan,
                          ''waist'' \<mapsto> scan_waist body_scan,
                          ''shoulder_width'' \<mapsto> scan_shoulder_width body_scan];
          measurements = add_if_truthy measurements ''hip'' (scan_hip body_scan);
          measurements = add_if_truthy measurements ''inseam'' (scan_inseam body_scan);
          measurements = add_if_truthy measurements ''torso_length'' (scan_torso_length body_scan);
          measurements = add_if_truthy measurements ''arm_length'' (scan_arm_length body_scan)
      in measurements)"

text \<open>\<^verbatim>\<open>getattr(body_scan, 'body_shape', 'rectangle') or 'rectangle'\<close>\<close>

definition scan_shape :: "BodyScan \<Rightarrow> string" where
  "scan_shape body_scan =
     (case scan_body_shape body_scan of
        None \<Rightarrow> ''rectangle''
      | Some shape \<Rightarrow> if shape = [] then ''rectangle'' else shape)"

text \<open>
  \<^verbatim>\<open>getattr(body_scan, 'undertone', 'warm')\<close>: 'warm' when the scan has no such
  attribute, else the attribute's value, which may be \<^verbatim>\<open>None\<close>.
\<close>

definition scan_tone :: "BodyScan \<Rightarrow> string option" where
  "scan_tone body_scan =
     (case scan_undertone body_scan of None \<Rightarrow> Some ''warm'' | Some tone \<Rightarrow> tone)"

text \<open>The dict that the matcher appends for a product.\<close>

record match_result =
  match_product :: Product
  match_variant :: ProductVariant
  match_recommended_size :: string
  match_recommended_color :: string
  match_color_hex :: string
  match_fit_type :: string
  is_perfect_match :: bool
  fit_matches_recommendation :: bool
  match_recommended_fit :: string
  fit_message :: string

text \<open>
  The body of the loop over the products (lines 389 to 442): \<open>Inr None\<close> when neither
  query finds a variant. \<^verbatim>\<open>filter(...).first()\<close> is \<^const>\<open>find\<close> on the table.
\<close>

definition best_variant ::
    "catalogue \<Rightarrow> measurements \<Rightarrow> string \<Rightarrow> string list \<Rightarrow> string \<Rightarrow> Product \<Rightarrow>
     py_error + match_result option" where
  "best_variant db measurements body_shape recommended_color_names recommended_fit product =
     (case recommend_size_for_garment db measurements (product_category product) body_shape of
        Inl e \<Rightarrow> Inl e
      | Inr rec_size \<Rightarrow>
          (let fit_matches = (product_fit_type product = recommended_fit);
               matching_variant =
                 find (\<lambda>v. variant_product v = product_id product \<and>
                            variant_size v = rec_size \<and>
                            color_name (variant_color v) \<in> set recommended_color_names \<and>
                            inventory_quantity v > 0)
                   (ProductVariant_objects db)
           in case matching_variant of
                Some v \<Rightarrow>
                  Inr (Some \<lparr>match_product = product, match_variant = v,
                             match_recommended_size = rec_size,
                             match_recommended_color = color_name (variant_color v),
                             match_color_hex = hex_code (variant_color v),
                             match_fit_type = product_fit_type product,
                             is_perfect_match = True,
                             fit_matches_recommendation = fit_matches,
                             match_recommended_fit = recommended_fit,
                             fit_message =
                               ''This '' @ product_category product @ '' in size '' @ rec_size @
                               '' with '' @ color_name (variant_color v) @
                               '' will fit you perfectly!''\<rparr>)
              | None \<Rightarrow>
                  (let size_only_variant =
                         find (\<lambda>v. variant_product v = product_id product \<and>
                                    variant_size v = rec_size \<and>
                                    inventory_quantity v > 0)
                           (ProductVariant_objects db)
                   in case size_only_variant of
                        Some v \<Rightarrow>
                          Inr (Some \<lparr>match_product = product, match_variant = v,
                                     match_recommended_size = rec_size,
                                     match_recommended_color = color_name (variant_color v),
                                     match_color_hex = hex_code (variant_color v),
                                     match_fit_type = product_fit_type product,
                                     is_perfect_match = False,
                                     fit_matches_recommendation = fit_matches,
                                     match_recommended_fit = recommended_fit,
                                     fit_message =
                                       ''This '' @ product_category product @ '' in size '' @
                                       rec_size @ '' will fit you great!''\<rparr>)
                      | None \<Rightarrow> Inr None)))"

fun collect_matches ::
    "catalogue \<Rightarrow> measurements \<Rightarrow> string \<Rightarrow> string list \<Rightarrow> string \<Rightarrow> Product list \<Rightarrow>
     match_result list \<Rightarrow> py_error + match_result list" where
  "collect_matches db ms shape names rf [] matching_products = Inr matching_products"
| "collect_matches db ms shape names rf (product # products) matching_products =
     (case best_variant db ms shape names rf product of
        Inl e \<Rightarrow> Inl e
      | Inr None \<Rightarrow> collect_matches db ms shape names rf products matching_products
      | Inr (Some r) \<Rightarrow> collect_matches db ms shape names rf products (matching_products @ [r]))"

text \<open>
  The sort key of line 445, a Python tuple: tuples, booleans (False before True) and
  strings (character by character) are compared lexicographically.
\<close>

definition match_key :: "match_result \<Rightarrow> bool \<times> bool \<times> string" where
  "match_key x =
     (\<not> fit_matches_recommendation x, \<not> is_perfect_match x, product_name (match_product x))"

text \<open>
  The product query of lines 376 to 386: a filter applies when its argument is truthy
  (not None, not the empty string) and one of the listed values.
\<close>

definition filtered_products :: "catalogue \<Rightarrow> string option \<Rightarrow> string option \<Rightarrow> Product list" where
  "filtered_products db gender fit_type =
     (let products = Product_objects db;
          products =
            (case gender of
               None \<Rightarrow> products
             | Some g \<Rightarrow>
                 if g \<noteq> [] \<and> g \<in> set [''men'', ''women'']
                 then filter (\<lambda>p. product_gender p = g \<or> product_gender p = ''unisex'') products
                 else products);
          products =
            (case fit_type of
               None \<Rightarrow> products
             | Some f \<Rightarrow>
                 if f \<noteq> [] \<and> f \<in> set [''slim'', ''regular'', ''oversize'']
                 then filter (\<lambda>p. product_fit_type p = f) products
                 else products)
      in products)"

definition get_matching_product_variants ::
    "catalogue \<Rightarrow> BodyScan \<Rightarrow> string option \<Rightarrow> string option \<Rightarrow> int \<Rightarrow>
     py_error + match_result list" where
  "get_matching_product_variants db body_scan gender fit_type limit =
     (let measurements = scan_measurements body_scan;
          body_shape = scan_shape body_scan;
          undertone = scan_tone body_scan;
          recommended_color_names = recommend_colors db (scan_skin_tone body_scan) undertone
      in case recommend_fit measurements of
           Inl e \<Rightarrow> Inl e
         | Inr recommended_fit \<Rightarrow>
             (case collect_matches db measurements body_shape recommended_color_names
                     recommended_fit (filtered_products db gender fit_type) [] of
                Inl e \<Rightarrow> Inl e
              | Inr matching_products \<Rightarrow>
                  Inr (slice_to (sort_key match_key matching_products) limit)))"

section \<open>The orchestrator\<close>

text \<open>The loop over the gender segments (lines 499 to 506).\<close>

fun segment_recommendations ::
    "catalogue \<Rightarrow> measurements \<Rightarrow> string \<Rightarrow> string list \<Rightarrow> (Product \<times> int) list \<Rightarrow>
     py_error + (Product \<times> int) list" where
  "segment_recommendations db ms skin_tone [] product_recommendations =
     Inr product_recommendations"
| "segment_recommendations db ms skin_tone (gender # genders) product_recommendations =
     (case recommend_products db ms skin_tone gender 10 of
        Inl e \<Rightarrow> Inl e
      | Inr recs \<Rightarrow>
          segment_recommendations db ms skin_tone genders (product_recommendations @ recs))"

text \<open>The loop that removes duplicates (lines 509 to 514).\<close>

fun unique_loop ::
    "(Product \<times> int) list \<Rightarrow> int set \<Rightarrow> (Product \<times> int) list \<Rightarrow> (Product \<times> int) list" where
  "unique_loop [] seen_products unique_recommendations = unique_recommendations"
| "unique_loop ((product, priority) # rest) seen_products unique_recommendations =
     (if product_id product \<notin> seen_products
      then unique_loop rest (insert (product_id product) seen_products)
             (unique_recommendations @ [(product, priority)])
      else unique_loop rest seen_products unique_recommendations)"

text \<open>\<^verbatim>\<open>sep.join(xs)\<close>\<close>

fun join :: "string \<Rightarrow> string list \<Rightarrow> string" where
  "join sep [] = []"
| "join sep [x] = x"
| "join sep (x # y # ys) = x @ sep @ join sep (y # ys)"

record Recommendation =
  rec_body_scan :: BodyScan
  rec_product :: Product
  rec_recommended_size :: string
  rec_recommended_fit :: string
  rec_recommended_colors :: string
  rec_priority :: int

text \<open>The loop that creates the records (lines 520 to 536).\<close>

fun create_recommendations ::
    "catalogue \<Rightarrow> BodyScan \<Rightarrow> measurements \<Rightarrow> string \<Rightarrow> string \<Rightarrow> string list \<Rightarrow>
     (Product \<times> int) list \<Rightarrow> Recommendation list \<Rightarrow> py_error + Recommendation list" where
  "create_recommendations db body_scan ms shape rf colors [] recommendation_objects =
     Inr recommendation_objects"
| "create_recommendations db body_scan ms shape rf colors ((product, priority) # rest)
       recommendation_objects =
     (case recommend_size_for_garment db ms (product_category product) shape of
        Inl e \<Rightarrow> Inl e
      | Inr recommended_size \<Rightarrow>
          create_recommendations db body_scan ms shape rf colors rest
            (recommendation_objects @
             [\<lparr>rec_body_scan = body_scan, rec_product = product,
               rec_recommended_size = recommended_size, rec_recommended_fit = rf,
               rec_recommended_colors = join '', '' (slice_to colors 5),
               rec_priority = priority\<rparr>]))"

definition generate_recommendations_for_scan ::
    "catalogue \<Rightarrow> BodyScan \<Rightarrow> py_error + Recommendation list" where
  "generate_recommendations_for_scan db body_scan =
     (let measurements = scan_measurements body_scan;
          body_shape = scan_shape body_scan;
          base_recommended_size = recommend_size db measurements
      in case recommend_fit measurements of
           Inl e \<Rightarrow> Inl e
         | Inr recommended_fit \<Rightarrow>
             (let undertone = scan_tone body_scan;
                  recommended_colors = recommend_colors db (scan_skin_tone body_scan) undertone
              in case segment_recommendations db measurements (scan_skin_tone body_scan)
                        [''men'', ''women'', ''unisex''] [] of
                   Inl e \<Rightarrow> Inl e
                 | Inr product_recommendations \<Rightarrow>
                     (let unique_recommendations = unique_loop product_recommendations {} [];
                          unique_recommendations = sort_by_priority unique_recommendations
                      in create_recommendations db body_scan measurements body_shape
                           recommended_fit recommended_colors
                           (slice_to unique_recommendations 10) [])))"

section \<open>Example catalogues\<close>


text \<open>
  A small shop: three sizes, three colours, a men's slim shirt with one white M in stock,
  a unisex regular tee with a red M and a navy S in stock, and women's chinos whose only
  variant is sold out. The analyser recommends navy and white for a light skin tone.
\<close>

definition navy :: Color where
  "navy = \<lparr>color_name = ''navy'', hex_code = ''#000080''\<rparr>"

definition white :: Color where
  "white = \<lparr>color_name = ''white'', hex_code = ''#FFFFFF''\<rparr>"

definition red :: Color where
  "red = \<lparr>color_name = ''red'', hex_code = ''#FF0000''\<rparr>"

definition oxford :: Product where
  "oxford = \<lparr>product_id = 1, product_name = ''Oxford Shirt'', product_category = ''shirt'',
              product_gender = ''men'', product_fit_type = ''slim''\<rparr>"

definition tee :: Product where
  "tee = \<lparr>product_id = 2, product_name = ''Basic Tee'', product_category = ''shirt'',
           product_gender = ''unisex'', product_fit_type = ''regular''\<rparr>"

definition chino :: Product where
  "chino = \<lparr>product_id = 3, product_name = ''Chino'', product_category = ''pants'',
             product_gender = ''women'', product_fit_type = ''regular''\<rparr>"

definition shop :: catalogue where
  "shop =
     \<lparr>Size_objects =
        [\<lparr>size_name = ''S'', chest_min = 80, chest_max = 90, waist_min = 60, waist_max = 70\<rparr>,
         \<lparr>size_name = ''M'', chest_min = 90, chest_max = 100, waist_min = 70, waist_max = 80\<rparr>,
         \<lparr>size_name = ''L'', chest_min = 100, chest_max = 110, waist_min = 80, waist_max = 90\<rparr>],
      Color_objects = [navy, white, red],
      Product_objects = [oxford, tee, chino],
      ProductVariant_objects =
        [\<lparr>variant_product = 1, variant_size = ''M'', variant_color = white,
          inventory_quantity = 2\<rparr>,
         \<lparr>variant_product = 2, variant_size = ''M'', variant_color = red,
          inventory_quantity = 5\<rparr>,
         \<lparr>variant_product = 2, variant_size = ''S'', variant_color = navy,
          inventory_quantity = 1\<rparr>,
         \<lparr>variant_product = 3, variant_size = ''M'', variant_color = navy,
          inventory_quantity = 0\<rparr>],
      get_recommended_colors =
        (\<lambda>skin_tone undertone. if skin_tone = ''light'' then [''navy'', ''white''] else [])\<rparr>"

text \<open>A scan with chest width 47 and waist width 40: size M, fit regular.\<close>

definition shopper :: BodyScan where
  "shopper =
     \<lparr>scan_height = 175, scan_chest = 47, scan_waist = 40, scan_shoulder_width = 45,
      scan_hip = None, scan_inseam = None, scan_torso_length = None, scan_arm_length = None,
      scan_body_shape = None, scan_undertone = None, scan_skin_tone = ''light''\<rparr>"

text \<open>What the matcher emits for the shirt and for the tee of the shop.\<close>

definition oxford_match :: match_result where
  "oxford_match =
     \<lparr>match_product = oxford,
      match_variant = \<lparr>variant_product = 1, variant_size = ''M'', variant_color = white,
                        inventory_quantity = 2\<rparr>,
      match_recommended_size = ''M'', match_recommended_color = ''white'',
      match_color_hex = ''#FFFFFF'', match_fit_type = ''slim'',
      is_perfect_match = True, fit_matches_recommendation = False,
      match_recommended_fit = ''regular'',
      fit_message = ''This shirt in size M with white will fit you perfectly!''\<rparr>"

definition tee_match :: match_result where
  "tee_match =
     \<lparr>match_product = tee,
      match_variant = \<lparr>variant_product = 2, variant_size = ''M'', variant_color = red,
                        inventory_quantity = 5\<rparr>,
      match_recommended_size = ''M'', match_recommended_color = ''red'',
      match_color_hex = ''#FF0000'', match_fit_type = ''regular'',
      is_perfect_match = False, fit_matches_recommendation = True,
      match_recommended_fit = ''regular'',
      fit_message = ''This shirt in size M will fit you great!''\<rparr>"

text \<open>
  A crowded shop: ten men's shirts (ids 1 to 10), ten women's blouses (ids 11 to 20) and
  one unisex scarf (id 21), each with one navy M in stock, so that every product scores
  the same for the shopper above.
\<close>

definition men_shirt :: "int \<Rightarrow> Product" where
  "men_shirt i = \<lparr>product_id = i, product_name = ''Shirt'', product_category = ''shirt'',
                   product_gender = ''men'', product_fit_type = ''regular''\<rparr>"

definition women_blouse :: "int \<Rightarrow> Product" where
  "women_blouse i = \<lparr>product_id = i, product_name = ''Blouse'', product_category = ''shirt'',
                      product_gender = ''women'', product_fit_type = ''regular''\<rparr>"

definition scarf :: Product where
  "scarf = \<lparr>product_id = 21, product_name = ''Scarf'', product_category = ''shirt'',
             product_gender = ''unisex'', product_fit_type = ''regular''\<rparr>"

definition navy_M :: "int \<Rightarrow> ProductVariant" where
  "navy_M i = \<lparr>variant_product = i, variant_size = ''M'', variant_color = navy,
                inventory_quantity = 1\<rparr>"

definition crowded :: catalogue where
  "crowded =
     \<lparr>Size_objects = Size_objects shop,
      Color_objects = [navy, white, red],
      Product_objects =
        map men_shirt [1, 2, 3, 4, 5, 6, 7, 8, 9, 10] @
        map women_blouse [11, 12, 13, 14, 15, 16, 17, 18, 19, 20] @ [scarf],
      ProductVariant_objects =
        map navy_M [1, 2, 3, 4, 5, 6, 7, 8, 9, 10, 11, 12, 13, 14, 15, 16, 17, 18, 19, 20, 21],
      get_recommended_colors = get_recommended_colors shop\<rparr>"

section \<open>Floats: proofs\<close>

text \<open>
  Rounding to the nearest double is monotone, and inside the binade from 1 to 2 it is
  rounding of the 52 fraction bits, which the simplifier evaluates on a rational number.
\<close>

lemma round_half_even_int: "round_half_even (of_int n) = n"
  by (simp add: round_half_even_def)

lemma round_half_even_ge_floor: "\<lfloor>t\<rfloor> \<le> round_half_even t"
  by (simp add: round_half_even_def Let_def)

lemma round_half_even_le_ceil: "round_half_even t \<le> \<lfloor>t\<rfloor> + 1"
  by (simp add: round_half_even_def Let_def)

lemma round_half_even_mono:
  assumes "t \<le> u"
  shows "round_half_even t \<le> round_half_even u"
proof (cases "\<lfloor>t\<rfloor> = \<lfloor>u\<rfloor>")
  case True
  then show ?thesis
    using assms by (auto simp: round_half_even_def Let_def)
next
  case False
  then have "\<lfloor>t\<rfloor> < \<lfloor>u\<rfloor>"
    using assms floor_mono [of t u] by linarith
  then have "\<lfloor>t\<rfloor> + 1 \<le> \<lfloor>u\<rfloor>" by simp
  then show ?thesis
    using round_half_even_le_ceil [of t] round_half_even_ge_floor [of u] by linarith
qed

lemma round_half_even_lower: "of_int a \<le> t \<Longrightarrow> a \<le> round_half_even t"
  using round_half_even_mono [of "of_int a" t] by (simp add: round_half_even_int)

lemma round_half_even_upper: "t \<le> of_int b \<Longrightarrow> round_half_even t \<le> b"
  using round_half_even_mono [of t "of_int b"] by (simp add: round_half_even_int)

lemma round_half_even_minus: "round_half_even (- t) = - round_half_even t"
proof (cases "t = of_int \<lfloor>t\<rfloor>")
  case True
  then obtain n where "t = of_int n" by metis
  then show ?thesis
    using round_half_even_int [of "- n"] by (simp add: round_half_even_int)
next
  case False
  then have "of_int \<lfloor>t\<rfloor> < t" and "t < of_int \<lfloor>t\<rfloor> + 1"
    using of_int_floor_le [of t] floor_correct [of t] by linarith+
  then have fl: "\<lfloor>- t\<rfloor> = - \<lfloor>t\<rfloor> - 1"
    by (intro floor_unique) (simp_all, linarith+)
  show ?thesis
    unfolding round_half_even_def Let_def fl
    using False by (auto simp: algebra_simps)
qed


lemma double_exponent_minus: "double_exponent (- x) = double_exponent x"
  by (simp add: double_exponent_def)

lemma round_double_minus: "round_double (- x) = - round_double x"
  by (simp add: round_double_def Let_def double_exponent_minus round_half_even_minus)

lemma double_exponent_upper:
  assumes "0 < x"
  shows "x < 2 powr (of_int (double_exponent x) + 1)"
proof -
  have "log 2 x < of_int \<lfloor>log 2 x\<rfloor> + 1"
    by linarith
  also have "\<dots> \<le> of_int (double_exponent x) + 1"
    using assms by (simp add: double_exponent_def)
  finally have "log 2 x < of_int (double_exponent x) + 1" using assms by simp
  then show ?thesis
    using assms by (simp add: log_less_iff)
qed

lemma double_exponent_lower:
  assumes "0 < x" and "- 1022 < double_exponent x"
  shows "2 powr of_int (double_exponent x) \<le> x"
proof -
  have "double_exponent x = \<lfloor>log 2 x\<rfloor>"
    using assms by (simp add: double_exponent_def max_def split: if_splits)
  then have "of_int (double_exponent x) \<le> log 2 x"
    by simp
  then show ?thesis
    using assms(1) by (simp add: le_log_iff)
qed

lemma double_exponent_mono:
  assumes "0 < x" and "x \<le> y"
  shows "double_exponent x \<le> double_exponent y"
proof -
  have "log 2 x \<le> log 2 y"
    using assms by simp
  then have "\<lfloor>log 2 x\<rfloor> \<le> \<lfloor>log 2 y\<rfloor>"
    by (rule floor_mono)
  then show ?thesis
    using assms by (simp add: double_exponent_def)
qed

lemma round_double_pos:
  assumes "0 < x"
  shows "round_double x = of_int (round_half_even (x / 2 powr (of_int (double_exponent x) - 52)))
           * 2 powr (of_int (double_exponent x) - 52)"
  using assms by (simp add: round_double_def Let_def)

lemma round_double_nonneg:
  assumes "0 < x"
  shows "0 \<le> round_double x"
proof -
  have "of_int 0 \<le> x / 2 powr (of_int (double_exponent x) - 52)"
    using assms by simp
  then have "0 \<le> round_half_even (x / 2 powr (of_int (double_exponent x) - 52))"
    by (rule round_half_even_lower)
  then show ?thesis
    using assms by (simp add: round_double_pos)
qed

lemma round_double_le_binade:
  assumes "0 < x"
  shows "round_double x \<le> 2 powr (of_int (double_exponent x) + 1)"
proof -
  let ?e = "double_exponent x"
  let ?q = "(2::real) powr (of_int ?e - 52)"
  have q: "0 < ?q" by simp
  have split: "2 powr (of_int ?e + 1) = 2 powr 53 * ?q"
    by (subst powr_add [symmetric]) (simp add: ac_simps)
  have "x / ?q \<le> 2 powr 53"
    using double_exponent_upper [OF assms] q split
    by (simp add: field_simps)
  also have "(2::real) powr 53 = of_int (2 ^ 53)"
    by simp
  finally have "round_half_even (x / ?q) \<le> 2 ^ 53"
    by (rule round_half_even_upper)
  then have "of_int (round_half_even (x / ?q)) \<le> (2 :: real) powr 53"
    by (metis \<open>2 powr 53 = real_of_int (2 ^ 53)\<close> of_int_le_iff)
  then have "of_int (round_half_even (x / ?q)) * ?q \<le> 2 powr 53 * ?q"
    using q by (simp add: mult_right_mono)
  then show ?thesis
    using assms by (simp add: round_double_pos split)
qed

lemma round_double_ge_binade:
  assumes "0 < x" and "2 powr of_int (double_exponent x) \<le> x"
  shows "2 powr of_int (double_exponent x) \<le> round_double x"
proof -
  let ?e = "double_exponent x"
  let ?q = "(2::real) powr (of_int ?e - 52)"
  have q: "0 < ?q" by simp
  have split: "2 powr of_int ?e = 2 powr 52 * ?q"
    by (subst powr_add [symmetric]) simp
  have "2 powr 52 \<le> x / ?q"
    using assms(2) q split by (simp add: field_simps)
  moreover have "(2::real) powr 52 = of_int (2 ^ 52)"
    by simp
  ultimately have "of_int (2 ^ 52) \<le> x / ?q"
    by simp
  then have "2 ^ 52 \<le> round_half_even (x / ?q)"
    by (rule round_half_even_lower)
  then have "(2 :: real) powr 52 \<le> of_int (round_half_even (x / ?q))"
    by (metis \<open>2 powr 52 = real_of_int (2 ^ 52)\<close> of_int_le_iff)
  then have "2 powr 52 * ?q \<le> of_int (round_half_even (x / ?q)) * ?q"
    using q by (simp add: mult_right_mono)
  then show ?thesis
    using assms(1) by (simp add: round_double_pos split)
qed

lemma round_double_mono_pos:
  assumes "0 < x" and "x \<le> y"
  shows "round_double x \<le> round_double y"
proof -
  have y: "0 < y" using assms by simp
  have le: "double_exponent x \<le> double_exponent y"
    using assms by (rule double_exponent_mono)
  show ?thesis
  proof (cases "double_exponent x = double_exponent y")
    case True
    let ?q = "(2::real) powr (of_int (double_exponent y) - 52)"
    have "x / ?q \<le> y / ?q"
      using assms(2) by (simp add: divide_right_mono)
    then have "round_half_even (x / ?q) \<le> round_half_even (y / ?q)"
      by (rule round_half_even_mono)
    then have "of_int (round_half_even (x / ?q)) * ?q \<le> of_int (round_half_even (y / ?q)) * ?q"
      by (simp add: mult_right_mono)
    then show ?thesis
      using assms(1) y True by (simp add: round_double_pos)
  next
    case False
    then have lt: "double_exponent x + 1 \<le> double_exponent y"
      using le by simp
    then have "- 1022 < double_exponent y"
      by (simp add: double_exponent_def)
    then have "2 powr of_int (double_exponent y) \<le> round_double y"
      using y by (intro round_double_ge_binade double_exponent_lower)
    moreover have "round_double x \<le> 2 powr (of_int (double_exponent x) + 1)"
      using assms(1) by (rule round_double_le_binade)
    moreover have "(2::real) powr (of_int (double_exponent x) + 1)
        \<le> 2 powr of_int (double_exponent y)"
    proof (rule powr_mono)
      have "real_of_int (double_exponent x + 1) \<le> real_of_int (double_exponent y)"
        using lt by (rule of_int_le_iff [THEN iffD2])
      then show "real_of_int (double_exponent x) + 1 \<le> real_of_int (double_exponent y)"
        by simp
    qed simp
    ultimately show ?thesis by linarith
  qed
qed

lemma round_double_zero: "round_double 0 = 0"
  by (simp add: round_double_def)

lemma round_double_nonpos: "x < 0 \<Longrightarrow> round_double x \<le> 0"
  using round_double_nonneg [of "- x"] by (simp add: round_double_minus)

lemma round_double_mono:
  assumes "x \<le> y"
  shows "round_double x \<le> round_double y"
proof -
  consider "0 < x" | "x = 0" "y = 0" | "x = 0" "0 < y" | "x < 0" "0 < y" | "x < 0" "y = 0"
    | "x < 0" "y < 0"
    using assms by linarith
  then show ?thesis
  proof cases
    case 1
    then show ?thesis using assms by (rule round_double_mono_pos)
  next
    case 2
    then show ?thesis by simp
  next
    case 3
    then show ?thesis using round_double_nonneg [of y] by (simp add: round_double_zero)
  next
    case 4
    then show ?thesis using round_double_nonneg [of y] round_double_nonpos [of x] by linarith
  next
    case 5
    then show ?thesis using round_double_nonpos [of x] by (simp add: round_double_zero)
  next
    case 6
    then have "round_double (- y) \<le> round_double (- x)"
      using assms by (intro round_double_mono_pos) simp_all
    then show ?thesis by (simp add: round_double_minus)
  qed
qed

lemma round_double_unit_binade:
  assumes "1 \<le> x" and "x < 2"
  shows "round_double x = of_int (round_half_even (x * 2 ^ 52)) / 2 ^ 52"
proof -
  have "\<lfloor>log 2 x\<rfloor> = 0"
    using assms by (simp add: floor_log_eq_powr_iff)
  then have e: "double_exponent x = 0"
    using assms by (simp add: double_exponent_def)
  have q: "(2::real) powr (- 52) = 1 / 2 ^ 52"
    by (simp add: powr_minus_divide)
  show ?thesis
    using assms by (simp add: round_double_def Let_def e q)
qed

lemma float_1_4: "round_double (14 / 10) = 6305039478318694 / 4503599627370496"
  by (simp add: round_double_unit_binade round_half_even_def Let_def)

lemma float_1_15: "round_double (115 / 100) = 5179139571476070 / 4503599627370496"
  by (simp add: round_double_unit_binade round_half_even_def Let_def)

lemma float_1_4_is_double: "round_double (round_double (14 / 10)) = round_double (14 / 10)"
  unfolding float_1_4 by (simp add: round_double_unit_binade round_half_even_def Let_def)

section \<open>Fit classification and body-shape adjustment: proofs\<close>

lemma fit_min_ratio_slim: "fit_min_ratio ''slim'' = Inr (round_double (14 / 10))"
  by (simp add: fit_min_ratio_def dict_item_def FIT_RECOMMENDATIONS_def)

lemma fit_min_ratio_regular: "fit_min_ratio ''regular'' = Inr (round_double (115 / 100))"
  by (simp add: fit_min_ratio_def dict_item_def FIT_RECOMMENDATIONS_def)

lemma recommend_fit_cases:
  "recommend_fit m =
     (if dict_get m ''waist'' 0 = 0 then Inr ''regular''
      else if round_double (dict_get m ''chest'' 0 / dict_get m ''waist'' 0)
                \<ge> round_double (14 / 10) then Inr ''slim''
      else if round_double (dict_get m ''chest'' 0 / dict_get m ''waist'' 0)
                \<ge> round_double (115 / 100) then Inr ''regular''
      else Inr ''oversize'')"
  unfolding recommend_fit_def Let_def float_div_def fit_min_ratio_slim fit_min_ratio_regular
  by (simp only: sum.case if_False split: if_splits) simp

lemma upper_canonical: "s \<in> set SIZE_ORDER \<Longrightarrow> upper s = s"
  by (auto simp: SIZE_ORDER_def upper_def upper_char_def)

lemma list_index_member:
  "x \<in> set xs \<Longrightarrow> \<exists>i<length xs. list_index xs x = Inr i \<and> xs ! i = x"
  by (induction xs) (auto split: sum.splits)

lemma list_index_absent: "x \<notin> set xs \<Longrightarrow> list_index xs x = Inl ValueError"
  by (induction xs) auto

lemma list_item_clamped:
  "xs \<noteq> [] \<Longrightarrow> list_item xs (max 0 (min j (int (length xs) - 1)))
     = Inr (xs ! nat (max 0 (min j (int (length xs) - 1))))"
  by (cases xs) (auto simp: list_item_def Let_def)

lemma SIZE_ORDER_nonempty: "SIZE_ORDER \<noteq> []"
  by (simp add: SIZE_ORDER_def)

lemma clamped_in_range:
  "xs \<noteq> [] \<Longrightarrow> nat (max 0 (min j (int (length xs) - 1))) < length xs"
  by (cases xs) auto

lemma adjust_zero:
  "adjustment_step shape garment = 0 \<Longrightarrow> apply_body_shape_adjustment base shape garment = Inr base"
  by (simp add: apply_body_shape_adjustment_def)

lemma adjust_shift:
  assumes "adjustment_step shape garment \<noteq> 0" and "list_index SIZE_ORDER (upper base) = Inr k"
  shows "apply_body_shape_adjustment base shape garment =
           Inr (SIZE_ORDER ! nat (max 0 (min (int k + adjustment_step shape garment)
                                             (int (length SIZE_ORDER) - 1))))"
  using assms
  by (simp add: apply_body_shape_adjustment_def Let_def list_item_clamped [OF SIZE_ORDER_nonempty])

lemma adjust_foreign:
  assumes "upper base \<notin> set SIZE_ORDER"
  shows "apply_body_shape_adjustment base shape garment = Inr base"
  using assms by (simp add: apply_body_shape_adjustment_def Let_def list_index_absent)

lemma step_triangle_pants: "adjustment_step ''triangle'' ''pants'' = 1"
  by (simp add: adjustment_step_def dict_get_def BODY_SHAPE_ADJUSTMENTS_def)

lemma step_triangle_dress: "adjustment_step ''triangle'' ''dress'' = 0"
  by (simp add: adjustment_step_def dict_get_def BODY_SHAPE_ADJUSTMENTS_def)

lemma adjust_M_triangle_pants: "apply_body_shape_adjustment ''M'' ''triangle'' ''pants'' = Inr ''L''"
  by (simp add: apply_body_shape_adjustment_def step_triangle_pants SIZE_ORDER_def upper_def
      upper_char_def list_item_def Let_def)

lemma adjust_XXXL_triangle_pants:
  "apply_body_shape_adjustment ''XXXL'' ''triangle'' ''pants'' = Inr ''XXXL''"
  by (simp add: apply_body_shape_adjustment_def step_triangle_pants SIZE_ORDER_def upper_def
      upper_char_def list_item_def Let_def)

lemma adjust_XS_inverted_triangle_pants:
  "apply_body_shape_adjustment ''XS'' ''inverted_triangle'' ''pants'' = Inr ''XS''"
  by (simp add: apply_body_shape_adjustment_def adjustment_step_def dict_get_def
      BODY_SHAPE_ADJUSTMENTS_def SIZE_ORDER_def upper_def upper_char_def list_item_def Let_def)

lemma adjust_m_triangle_pants: "apply_body_shape_adjustment ''m'' ''triangle'' ''pants'' = Inr ''L''"
  by (simp add: apply_body_shape_adjustment_def step_triangle_pants SIZE_ORDER_def upper_def
      upper_char_def list_item_def Let_def)

text \<open>
  Claim C6. For all measurements (a missing key reads as 0), \<open>recommend_fit\<close> returns
  'regular' when the waist is 0; otherwise, with the ratio chest / waist as the float
  division gives it, it returns 'slim' when the ratio is at least the slim minimum of the
  table (the float 1.4), 'regular' when the ratio is at least the regular minimum (the
  float 1.15) and below the slim minimum, and 'oversize' otherwise. It never raises. At
  the boundary the rounding decides: chest 6.999999999999999 and waist 5.0 have an exact
  quotient below 1.4 and a float quotient equal to the float 1.4, and the fit is 'slim'.
\<close>

theorem recommend_fit_bands:
  "fit_min_ratio ''slim'' = Inr (round_double (14 / 10)) \<and>
   fit_min_ratio ''regular'' = Inr (round_double (115 / 100)) \<and>
   round_double (14 / 10) = 6305039478318694 / 4503599627370496 \<and>
   round_double (115 / 100) = 5179139571476070 / 4503599627370496 \<and>
   recommend_fit m =
     (if dict_get m ''waist'' 0 = 0 then Inr ''regular''
      else if round_double (dict_get m ''chest'' 0 / dict_get m ''waist'' 0)
                \<ge> round_double (14 / 10) then Inr ''slim''
      else if round_double (dict_get m ''chest'' 0 / dict_get m ''waist'' 0)
                \<ge> round_double (115 / 100) then Inr ''regular''
      else Inr ''oversize'') \<and>
   recommend_fit [''chest'' \<mapsto> 7881299347898367 / 1125899906842624, ''waist'' \<mapsto> 5]
     = Inr ''slim''"
proof -
  have "recommend_fit [''chest'' \<mapsto> 7881299347898367 / 1125899906842624, ''waist'' \<mapsto> 5]
      = Inr ''slim''"
    by (simp add: recommend_fit_cases dict_get_def round_double_unit_binade
        round_half_even_def Let_def)
  then show ?thesis
    using recommend_fit_cases [of m] fit_min_ratio_slim fit_min_ratio_regular
      float_1_4 float_1_15
    by (simp only: simp_thms)
qed

text \<open>
  Claim C7. Fit classification is monotone in the chest value: for a fixed positive waist
  and chest values \<open>c1 \<le> c2\<close>, the tier of the fit returned for \<open>c2\<close> is at least
  the tier returned for \<open>c1\<close> in the order oversize, regular, slim; and whenever the
  waist is not 0 and the ratio chest / waist is at least the slim minimum of the table,
  'slim' is returned.
\<close>

theorem recommend_fit_monotone:
  "(0 < w \<and> c1 \<le> c2 \<longrightarrow>
      (\<exists>f1 f2 t1 t2.
         recommend_fit (m(''chest'' \<mapsto> c1, ''waist'' \<mapsto> w)) = Inr f1 \<and>
         recommend_fit (m(''chest'' \<mapsto> c2, ''waist'' \<mapsto> w)) = Inr f2 \<and>
         fit_tier f1 = Some t1 \<and> fit_tier f2 = Some t2 \<and> t1 \<le> t2)) \<and>
   (dict_get m' ''waist'' 0 \<noteq> 0 \<and>
    fit_min_ratio ''slim'' = Inr r \<and> r \<le> dict_get m' ''chest'' 0 / dict_get m' ''waist'' 0 \<longrightarrow>
      recommend_fit m' = Inr ''slim'')"
proof (intro conjI impI)
  assume h: "0 < w \<and> c1 \<le> c2"
  then have le: "c1 / w \<le> c2 / w"
    by (simp add: divide_right_mono)
  have w: "w \<noteq> 0" using h by simp
  define r1 r2 where "r1 = round_double (c1 / w)" and "r2 = round_double (c2 / w)"
  define slim_min regular_min
    where "slim_min = round_double (14 / 10)" and "regular_min = round_double (115 / 100)"
  have r: "r1 \<le> r2"
    unfolding r1_def r2_def using le by (rule round_double_mono)
  have e1: "recommend_fit (m(''chest'' \<mapsto> c1, ''waist'' \<mapsto> w)) =
      (if slim_min \<le> r1 then Inr ''slim''
       else if regular_min \<le> r1 then Inr ''regular'' else Inr ''oversize'')"
    unfolding recommend_fit_cases r1_def slim_min_def regular_min_def
    using w by (simp add: dict_get_def)
  have e2: "recommend_fit (m(''chest'' \<mapsto> c2, ''waist'' \<mapsto> w)) =
      (if slim_min \<le> r2 then Inr ''slim''
       else if regular_min \<le> r2 then Inr ''regular'' else Inr ''oversize'')"
    unfolding recommend_fit_cases r2_def slim_min_def regular_min_def
    using w by (simp add: dict_get_def)
  show "\<exists>f1 f2 t1 t2.
         recommend_fit (m(''chest'' \<mapsto> c1, ''waist'' \<mapsto> w)) = Inr f1 \<and>
         recommend_fit (m(''chest'' \<mapsto> c2, ''waist'' \<mapsto> w)) = Inr f2 \<and>
         fit_tier f1 = Some t1 \<and> fit_tier f2 = Some t2 \<and> t1 \<le> t2"
    unfolding e1 e2 using r by (auto simp: fit_tier_def)
next
  assume a: "dict_get m' ''waist'' 0 \<noteq> 0 \<and>
    fit_min_ratio ''slim'' = Inr r \<and> r \<le> dict_get m' ''chest'' 0 / dict_get m' ''waist'' 0"
  then have nz: "dict_get m' ''waist'' 0 \<noteq> 0"
    and rq: "r \<le> dict_get m' ''chest'' 0 / dict_get m' ''waist'' 0"
    by simp_all
  have r: "r = round_double (14 / 10)"
    using a unfolding fit_min_ratio_slim by (simp only: sum.inject)
  have "round_double r \<le> round_double (dict_get m' ''chest'' 0 / dict_get m' ''waist'' 0)"
    using rq by (rule round_double_mono)
  then have "round_double (14 / 10)
      \<le> round_double (dict_get m' ''chest'' 0 / dict_get m' ''waist'' 0)"
    unfolding r float_1_4_is_double .
  with nz show "recommend_fit m' = Inr ''slim''"
    unfolding recommend_fit_cases by (simp only: if_True if_False)
qed

theorem recommend_fit_monotone_witness:
  "(0::real) < 40 \<and> (50::real) \<le> 60 \<and>
   recommend_fit [''chest'' \<mapsto> 50, ''waist'' \<mapsto> 40] = Inr ''regular'' \<and>
   recommend_fit [''chest'' \<mapsto> 60, ''waist'' \<mapsto> 40] = Inr ''slim'' \<and>
   fit_tier ''regular'' = Some 1 \<and> fit_tier ''slim'' = Some 2 \<and>
   dict_get [''chest'' \<mapsto> 60, ''waist'' \<mapsto> 40] ''waist'' (0::real) \<noteq> 0 \<and>
   fit_min_ratio ''slim'' = Inr (6305039478318694 / 4503599627370496) \<and>
   (6305039478318694 / 4503599627370496 :: real)
     \<le> dict_get [''chest'' \<mapsto> 60, ''waist'' \<mapsto> 40] ''chest'' 0
         / dict_get [''chest'' \<mapsto> 60, ''waist'' \<mapsto> 40] ''waist'' 0"
  using recommend_fit_monotone [of 40 50 60 Map.empty "[''chest'' \<mapsto> 60, ''waist'' \<mapsto> 40]"
          "6305039478318694 / 4503599627370496"]
  by (simp add: recommend_fit_cases dict_get_def fit_tier_def
      fit_min_ratio_slim [unfolded float_1_4] round_double_unit_binade round_half_even_def
      Let_def)

text \<open>
  Claim C8. For a base size on the canonical scale, every body shape and every garment
  type, \<open>apply_body_shape_adjustment\<close> returns a member of the scale and does not raise:
  the index it computes (the index of the base size plus the step) is clamped into
  \<open>[0, len(SIZE_ORDER) - 1]\<close>, the indexing at it succeeds and the result is the label of
  the scale at that index. 'M' for triangle and pants gives 'L'; 'XXXL' for triangle and
  pants stays 'XXXL' (clamped at the top); 'XS' for inverted triangle and pants stays 'XS'
  (clamped at the bottom).
\<close>

theorem adjustment_stays_on_scale:
  "base_size \<in> set SIZE_ORDER \<Longrightarrow>
     (\<exists>s \<in> set SIZE_ORDER. apply_body_shape_adjustment base_size body_shape garment_type = Inr s) \<and>
     (\<exists>k i. list_index SIZE_ORDER (upper base_size) = Inr k \<and>
            i = max 0 (min (int k + adjustment_step body_shape garment_type)
                           (int (length SIZE_ORDER) - 1)) \<and>
            0 \<le> i \<and> i \<le> int (length SIZE_ORDER) - 1 \<and>
            list_item SIZE_ORDER i = Inr (SIZE_ORDER ! nat i) \<and>
            apply_body_shape_adjustment base_size body_shape garment_type
              = Inr (SIZE_ORDER ! nat i)) \<and>
     apply_body_shape_adjustment ''M'' ''triangle'' ''pants'' = Inr ''L'' \<and>
     apply_body_shape_adjustment ''XXXL'' ''triangle'' ''pants'' = Inr ''XXXL'' \<and>
     apply_body_shape_adjustment ''XS'' ''inverted_triangle'' ''pants'' = Inr ''XS''"
proof -
  assume mem: "base_size \<in> set SIZE_ORDER"
  then have up: "upper base_size = base_size"
    by (rule upper_canonical)
  from mem obtain k where k: "list_index SIZE_ORDER (upper base_size) = Inr k"
    and k_len: "k < length SIZE_ORDER" and k_nth: "SIZE_ORDER ! k = base_size"
    using list_index_member [of base_size SIZE_ORDER] up by auto
  let ?i = "max 0 (min (int k + adjustment_step body_shape garment_type)
                       (int (length SIZE_ORDER) - 1))"
  have item: "list_item SIZE_ORDER ?i = Inr (SIZE_ORDER ! nat ?i)"
    by (rule list_item_clamped [OF SIZE_ORDER_nonempty])
  have range: "0 \<le> ?i \<and> ?i \<le> int (length SIZE_ORDER) - 1"
    by (simp add: SIZE_ORDER_def)
  have result: "apply_body_shape_adjustment base_size body_shape garment_type
      = Inr (SIZE_ORDER ! nat ?i)"
  proof (cases "adjustment_step body_shape garment_type = 0")
    case True
    then have "nat ?i = k"
      using k_len by simp
    then show ?thesis
      using True k_nth by (simp add: adjust_zero)
  next
    case False
    then show ?thesis
      using k by (rule adjust_shift)
  qed
  have "SIZE_ORDER ! nat ?i \<in> set SIZE_ORDER"
    by (rule nth_mem [OF clamped_in_range [OF SIZE_ORDER_nonempty]])
  then have on_scale: "\<exists>s \<in> set SIZE_ORDER.
      apply_body_shape_adjustment base_size body_shape garment_type = Inr s"
    using result by simp
  show ?thesis
    using on_scale k item range result adjust_M_triangle_pants adjust_XXXL_triangle_pants
      adjust_XS_inverted_triangle_pants
    by blast
qed

theorem adjustment_stays_on_scale_witness:
  "''XL'' \<in> set SIZE_ORDER \<and>
   apply_body_shape_adjustment ''XL'' ''oval'' ''shirt'' = Inr ''XXL'' \<and>
   ''XXL'' \<in> set SIZE_ORDER \<and>
   ''XS'' \<in> set SIZE_ORDER \<and>
   list_index SIZE_ORDER (upper ''XS'') = Inr 0 \<and>
   adjustment_step ''triangle'' ''shirt'' = - 1 \<and>
   max 0 (min (int 0 + adjustment_step ''triangle'' ''shirt'') (int (length SIZE_ORDER) - 1)) = 0 \<and>
   apply_body_shape_adjustment ''XS'' ''triangle'' ''shirt'' = Inr (SIZE_ORDER ! nat 0) \<and>
   SIZE_ORDER ! nat 0 = ''XS''"
  using adjustment_stays_on_scale [of "''XL''" "''oval''" "''shirt''"]
        adjustment_stays_on_scale [of "''XS''" "''triangle''" "''shirt''"]
  by (simp add: apply_body_shape_adjustment_def adjustment_step_def dict_get_def
      BODY_SHAPE_ADJUSTMENTS_def SIZE_ORDER_def upper_def upper_char_def list_item_def Let_def)

text \<open>
  Claim C10. When the upper-cased base size is on the canonical scale and the step for
  (body shape, garment type) is not 0, the result is the canonical upper-case label at the
  clamped index ('m' for triangle and pants gives 'L'); when the step is 0 the input string
  is returned unchanged, in its own letter case ('m' for triangle and dress stays 'm').
\<close>

theorem adjustment_case_handling:
  "(upper base_size \<in> set SIZE_ORDER \<and> adjustment_step body_shape garment_type \<noteq> 0 \<longrightarrow>
      (\<exists>k. list_index SIZE_ORDER (upper base_size) = Inr k \<and>
           apply_body_shape_adjustment base_size body_shape garment_type =
             Inr (SIZE_ORDER ! nat (max 0 (min (int k + adjustment_step body_shape garment_type)
                                               (int (length SIZE_ORDER) - 1))))) \<and>
      (\<exists>s \<in> set SIZE_ORDER.
           apply_body_shape_adjustment base_size body_shape garment_type = Inr s \<and> upper s = s)) \<and>
   (adjustment_step body_shape garment_type = 0 \<longrightarrow>
      apply_body_shape_adjustment base_size body_shape garment_type = Inr base_size) \<and>
   apply_body_shape_adjustment ''m'' ''triangle'' ''pants'' = Inr ''L'' \<and>
   apply_body_shape_adjustment ''m'' ''triangle'' ''dress'' = Inr ''m''"
proof (intro conjI impI)
  assume h: "upper base_size \<in> set SIZE_ORDER \<and> adjustment_step body_shape garment_type \<noteq> 0"
  then obtain k where k: "list_index SIZE_ORDER (upper base_size) = Inr k"
    using list_index_member [of "upper base_size" SIZE_ORDER] by auto
  let ?s = "SIZE_ORDER ! nat (max 0 (min (int k + adjustment_step body_shape garment_type)
                                          (int (length SIZE_ORDER) - 1)))"
  have res: "apply_body_shape_adjustment base_size body_shape garment_type = Inr ?s"
    using adjust_shift [of body_shape garment_type base_size k] h k by simp
  show "\<exists>k. list_index SIZE_ORDER (upper base_size) = Inr k \<and>
           apply_body_shape_adjustment base_size body_shape garment_type =
             Inr (SIZE_ORDER ! nat (max 0 (min (int k + adjustment_step body_shape garment_type)
                                               (int (length SIZE_ORDER) - 1))))"
    using k res by blast
  have mem: "?s \<in> set SIZE_ORDER"
    by (rule nth_mem [OF clamped_in_range [OF SIZE_ORDER_nonempty]])
  then have "upper ?s = ?s" by (rule upper_canonical)
  then show "\<exists>s \<in> set SIZE_ORDER.
      apply_body_shape_adjustment base_size body_shape garment_type = Inr s \<and> upper s = s"
    using mem res by blast
next
  assume "adjustment_step body_shape garment_type = 0"
  then show "apply_body_shape_adjustment base_size body_shape garment_type = Inr base_size"
    by (rule adjust_zero)
next
  show "apply_body_shape_adjustment ''m'' ''triangle'' ''pants'' = Inr ''L''"
    by (rule adjust_m_triangle_pants)
next
  show "apply_body_shape_adjustment ''m'' ''triangle'' ''dress'' = Inr ''m''"
    by (rule adjust_zero [OF step_triangle_dress])
qed

theorem adjustment_case_handling_witness:
  "upper ''xl'' \<in> set SIZE_ORDER \<and> adjustment_step ''oval'' ''shirt'' \<noteq> 0 \<and>
   apply_body_shape_adjustment ''xl'' ''oval'' ''shirt'' = Inr ''XXL'' \<and>
   adjustment_step ''hourglass'' ''shirt'' = 0 \<and>
   apply_body_shape_adjustment ''xl'' ''hourglass'' ''shirt'' = Inr ''xl''"
  using adjustment_case_handling [of "''xl''" "''oval''" "''shirt''"]
        adjustment_case_handling [of "''xl''" "''hourglass''" "''shirt''"]
  by (simp add: apply_body_shape_adjustment_def adjustment_step_def dict_get_def
      BODY_SHAPE_ADJUSTMENTS_def SIZE_ORDER_def upper_def upper_char_def list_item_def Let_def)
section \<open>Size matching: proofs\<close>






section \<open>Product scoring: proofs\<close>

lemma score_products_closed:
  "score_products db rs rf rc ps acc =
     acc @ List.map_filter (\<lambda>p. map_option (Pair p) (score_product db rs rf rc p)) ps"
  by (induction ps arbitrary: acc) (auto simp: List.map_filter_simps split: option.splits)

lemma in_set_map_filter:
  "y \<in> set (List.map_filter f xs) \<longleftrightarrow> (\<exists>x \<in> set xs. f x = Some y)"
  by (induction xs) (auto simp: List.map_filter_simps split: option.splits)

lemma score_product_formula:
  "score_product db rs rf rc product =
     (if available_variants db product = [] then None
      else Some (5 + (if product_fit_type product = rf then 15 else 0)
                   + (if \<exists>v \<in> set (available_variants db product). variant_size v = rs
                      then 10 else 0)
                   + (if \<exists>v \<in> set (available_variants db product). variant_color v \<in> set rc
                      then 10 else 0)))"
  by (simp add: score_product_def Let_def filter_empty_conv)


lemma set_slice_to: "set (slice_to xs n) \<subseteq> set xs"
  by (simp add: slice_to_def set_take_subset)

lemma set_sort_by_priority: "set (sort_by_priority xs) = set xs"
  by (simp add: sort_by_priority_def)

lemma recommend_fit_total: "\<exists>f. recommend_fit m = Inr f"
  by (simp add: recommend_fit_cases)

lemma recommend_products_closed:
  assumes "recommend_fit m = Inr rf"
  shows "recommend_products db m skin gender limit =
     Inr (slice_to (sort_by_priority
            (List.map_filter
               (\<lambda>p. map_option (Pair p)
                  (score_product db (recommend_size db m) rf
                     (filter (\<lambda>c. color_name c \<in> set (recommend_colors db skin (Some ''warm'')))
                        (Color_objects db)) p))
               (filter (\<lambda>p. product_gender p = gender \<or> product_gender p = ''unisex'')
                  (Product_objects db)))) limit)"
  using assms by (simp add: recommend_products_def Let_def score_products_closed)


subsection \<open>The example shop, evaluated\<close>

lemmas shop_defs = shop_def shopper_def oxford_def tee_def chino_def navy_def white_def red_def

lemma shopper_size: "recommend_size shop (scan_measurements shopper) = ''M''"
  by (simp add: recommend_size_def shop_defs scan_measurements_def add_if_truthy_def dict_get_def
      WIDTH_TO_CIRCUMFERENCE_FACTOR_def Let_def)

lemma shopper_fit: "recommend_fit (scan_measurements shopper) = Inr ''regular''"
  by (simp add: recommend_fit_cases shop_defs scan_measurements_def add_if_truthy_def dict_get_def
      round_double_unit_binade round_half_even_def Let_def)

lemma shop_palette:
  "filter (\<lambda>c. color_name c \<in> set (recommend_colors shop ''light'' (Some ''warm''))) (Color_objects shop)
     = [navy, white]"
  by (simp add: recommend_colors_def shop_defs)

lemma shop_available:
  "available_variants shop oxford =
     [\<lparr>variant_product = 1, variant_size = ''M'', variant_color = white, inventory_quantity = 2\<rparr>]"
  "available_variants shop tee =
     [\<lparr>variant_product = 2, variant_size = ''M'', variant_color = red, inventory_quantity = 5\<rparr>,
      \<lparr>variant_product = 2, variant_size = ''S'', variant_color = navy, inventory_quantity = 1\<rparr>]"
  "available_variants shop chino = []"
  by (simp_all add: available_variants_def shop_defs)

lemma shop_scores:
  "score_product shop ''M'' ''regular'' [navy, white] oxford = Some 25"
  "score_product shop ''M'' ''regular'' [navy, white] tee = Some 40"
  "score_product shop ''M'' ''regular'' [navy, white] chino = None"
  by (simp_all add: score_product_def shop_available Let_def)
     (simp_all add: shop_defs)

lemma shop_men:
  "recommend_products shop (scan_measurements shopper) ''light'' ''men'' 10
     = Inr [(tee, 40), (oxford, 25)]"
  unfolding recommend_products_closed [OF shopper_fit] shopper_size shop_palette
  by (simp add: List.map_filter_simps shop_scores sort_by_priority_def slice_to_def)
     (simp add: shop_defs List.map_filter_simps shop_scores [unfolded shop_defs])



section \<open>Variant matching: proofs\<close>

lemma apply_body_shape_adjustment_total:
  "\<exists>s. apply_body_shape_adjustment base shape garment = Inr s"
proof (cases "adjustment_step shape garment = 0")
  case True
  then show ?thesis by (simp add: adjust_zero)
next
  case False
  show ?thesis
  proof (cases "upper base \<in> set SIZE_ORDER")
    case True
    then obtain k where "list_index SIZE_ORDER (upper base) = Inr k"
      using list_index_member [of "upper base" SIZE_ORDER] by auto
    then show ?thesis using adjust_shift [OF False] by simp
  next
    case False
    then show ?thesis by (simp add: adjust_foreign)
  qed
qed

lemma shirt_config: "\<exists>shirt. dict_item GARMENT_MEASUREMENTS ''shirt'' = Inr shirt"
  by (simp add: dict_item_def GARMENT_MEASUREMENTS_def)

lemma recommend_size_for_garment_total:
  "\<exists>s. recommend_size_for_garment db ms garment shape = Inr s"
proof -
  obtain shirt where "dict_item GARMENT_MEASUREMENTS ''shirt'' = Inr shirt"
    using shirt_config by blast
  then show ?thesis
    by (simp add: recommend_size_for_garment_def Let_def apply_body_shape_adjustment_total)
qed





lemma shopper_measurements:
  "scan_measurements shopper =
     [''height'' \<mapsto> 175, ''chest'' \<mapsto> 47, ''waist'' \<mapsto> 40, ''shoulder_width'' \<mapsto> 45]"
  by (simp add: scan_measurements_def add_if_truthy_def shopper_def Let_def)

lemma shopper_shape: "scan_shape shopper = ''rectangle''"
  by (simp add: scan_shape_def shopper_def)

lemma shopper_palette:
  "recommend_colors shop (scan_skin_tone shopper) (scan_tone shopper) = [''navy'', ''white'']"
  by (simp add: recommend_colors_def scan_tone_def shop_defs)

lemma step_rectangle: "adjustment_step ''rectangle'' garment = 0"
  by (simp add: adjustment_step_def dict_get_def BODY_SHAPE_ADJUSTMENTS_def)

lemma shopper_shirt_size:
  "recommend_size_for_garment shop (scan_measurements shopper) ''shirt'' ''rectangle'' = Inr ''M''"
  by (simp add: recommend_size_for_garment_def dict_item_def dict_get_def GARMENT_MEASUREMENTS_def
      shopper_measurements WIDTH_TO_CIRCUMFERENCE_FACTOR_def Let_def adjust_zero step_rectangle)
     (simp add: shop_def)

lemma shopper_pants_size:
  "recommend_size_for_garment shop (scan_measurements shopper) ''pants'' ''rectangle'' = Inr ''M''"
  by (simp add: recommend_size_for_garment_def dict_item_def dict_get_def GARMENT_MEASUREMENTS_def
      shopper_measurements WIDTH_TO_CIRCUMFERENCE_FACTOR_def Let_def adjust_zero step_rectangle)
     (simp add: shop_def)

lemma shop_best_oxford:
  "best_variant shop (scan_measurements shopper) ''rectangle'' [''navy'', ''white''] ''regular'' oxford =
     Inr (Some oxford_match)"
  by (simp add: best_variant_def shop_defs oxford_match_def
      shopper_shirt_size [unfolded shop_defs] Let_def)

lemma shop_best_tee:
  "best_variant shop (scan_measurements shopper) ''rectangle'' [''navy'', ''white''] ''regular'' tee =
     Inr (Some tee_match)"
  by (simp add: best_variant_def shop_defs tee_match_def
      shopper_shirt_size [unfolded shop_defs] Let_def)

lemma shop_best_chino:
  "best_variant shop (scan_measurements shopper) ''rectangle'' [''navy'', ''white''] ''regular'' chino =
     Inr None"
  by (simp add: best_variant_def shop_defs shopper_pants_size [unfolded shop_defs] Let_def)


lemma best_variant_total: "\<exists>r. best_variant db ms shape names rf product = Inr r"
proof -
  obtain rec_size where
    "recommend_size_for_garment db ms (product_category product) shape = Inr rec_size"
    using recommend_size_for_garment_total by blast
  then show ?thesis
    by (simp add: best_variant_def Let_def split: option.splits)
qed

lemma collect_matches_total:
  "\<exists>out. collect_matches db ms shape names rf ps acc = Inr out"
proof (induction ps arbitrary: acc)
  case Nil
  show ?case by simp
next
  case (Cons p ps)
  obtain r where "best_variant db ms shape names rf p = Inr r"
    using best_variant_total by blast
  then show ?case
    using Cons.IH by (cases r) simp_all
qed

lemma slice_to_take: "\<exists>n. slice_to xs limit = take n xs"
  by (auto simp: slice_to_def)

lemma sorted_slice_to: "sorted (map f xs) \<Longrightarrow> sorted (map f (slice_to xs limit))"
proof -
  assume s: "sorted (map f xs)"
  obtain n where n: "slice_to xs limit = take n xs"
    using slice_to_take by blast
  have "sorted (take n (map f xs))"
    using s by (rule sorted_wrt_take)
  then show ?thesis by (simp add: n take_map)
qed

lemma match_key_le:
  "match_key a \<le> match_key b \<longleftrightarrow>
     (fit_matches_recommendation a \<and> \<not> fit_matches_recommendation b) \<or>
     (fit_matches_recommendation a = fit_matches_recommendation b \<and>
      ((is_perfect_match a \<and> \<not> is_perfect_match b) \<or>
       (is_perfect_match a = is_perfect_match b \<and>
        product_name (match_product a) \<le> product_name (match_product b))))"
  by (auto simp: match_key_def)

text \<open>
  Claim C5. The list that the variant matcher returns is the stable sort of the collected
  matches by the key (not fit_matches_recommendation, not is_perfect_match, product name),
  cut to the first \<open>limit\<close> entries: it is sorted ascending by that key, so of two
  entries the earlier one matches the fit when the later one does, is a perfect match when
  the later one is (for equal fit flags), and has the smaller or equal product name in the
  order of Python strings (for equal flags); for a limit that is not negative it has at
  most \<open>limit\<close> entries.
\<close>

theorem matches_sorted_and_truncated:
  "\<exists>out rf collected.
     get_matching_product_variants db body_scan gender fit_type limit = Inr out \<and>
     recommend_fit (scan_measurements body_scan) = Inr rf \<and>
     collect_matches db (scan_measurements body_scan) (scan_shape body_scan)
       (recommend_colors db (scan_skin_tone body_scan) (scan_tone body_scan)) rf
       (filtered_products db gender fit_type) [] = Inr collected \<and>
     out = slice_to (sort_key match_key collected) limit \<and>
     set (sort_key match_key collected) = set collected \<and>
     length (sort_key match_key collected) = length collected \<and>
     sorted (map match_key out) \<and>
     (\<forall>i j. i < j \<and> j < length out \<longrightarrow>
        (fit_matches_recommendation (out ! i) \<and> \<not> fit_matches_recommendation (out ! j)) \<or>
        (fit_matches_recommendation (out ! i) = fit_matches_recommendation (out ! j) \<and>
         ((is_perfect_match (out ! i) \<and> \<not> is_perfect_match (out ! j)) \<or>
          (is_perfect_match (out ! i) = is_perfect_match (out ! j) \<and>
           product_name (match_product (out ! i)) \<le> product_name (match_product (out ! j)))))) \<and>
     (0 \<le> limit \<longrightarrow>
        out = take (nat limit) (sort_key match_key collected) \<and> length out \<le> nat limit)"
proof -
  obtain rf where rf: "recommend_fit (scan_measurements body_scan) = Inr rf"
    using recommend_fit_total by blast
  obtain collected where c:
    "collect_matches db (scan_measurements body_scan) (scan_shape body_scan)
       (recommend_colors db (scan_skin_tone body_scan) (scan_tone body_scan)) rf
       (filtered_products db gender fit_type) [] = Inr collected"
    using collect_matches_total by blast
  define out where "out = slice_to (sort_key match_key collected) limit"
  have res: "get_matching_product_variants db body_scan gender fit_type limit = Inr out"
    by (simp add: get_matching_product_variants_def Let_def rf c out_def)
  have srt: "sorted (map match_key out)"
    unfolding out_def by (rule sorted_slice_to) simp
  have pair: "match_key (out ! i) \<le> match_key (out ! j)" if "i < j \<and> j < length out" for i j
  proof -
    have "map match_key out ! i \<le> map match_key out ! j"
      using srt that by (intro sorted_nth_mono) simp_all
    then show ?thesis using that by simp
  qed
  have lim: "out = take (nat limit) (sort_key match_key collected) \<and> length out \<le> nat limit"
    if "0 \<le> limit"
    using that by (simp add: out_def slice_to_def)
  show ?thesis
    using res rf c out_def srt pair [unfolded match_key_le] lim
    by (intro exI [of _ out] exI [of _ rf] exI [of _ collected]) simp
qed

lemma shop_filtered: "filtered_products shop None None = [oxford, tee, chino]"
  by (simp add: filtered_products_def shop_def)

lemma shop_collected:
  "collect_matches shop (scan_measurements shopper) ''rectangle'' [''navy'', ''white''] ''regular''
     [oxford, tee, chino] [] = Inr [oxford_match, tee_match]"
  by (simp add: shop_best_oxford shop_best_tee shop_best_chino)

lemma shop_sorted_matches:
  "sort_key match_key [oxford_match, tee_match] = [tee_match, oxford_match]"
  by (simp add: match_key_def oxford_match_def tee_match_def)

lemma shop_matches:
  "get_matching_product_variants shop shopper None None limit =
     Inr (slice_to [tee_match, oxford_match] limit)"
  by (simp only: get_matching_product_variants_def Let_def shopper_fit shopper_shape
      shopper_palette shop_filtered shop_collected shop_sorted_matches sum.case)

theorem matches_sorted_and_truncated_witness:
  "get_matching_product_variants shop shopper None None 6 = Inr [tee_match, oxford_match] \<and>
   (0::nat) < 1 \<and> 1 < length [tee_match, oxford_match] \<and>
   fit_matches_recommendation ([tee_match, oxford_match] ! 0) \<and>
   \<not> fit_matches_recommendation ([tee_match, oxford_match] ! 1) \<and>
   (0::int) \<le> 1 \<and>
   get_matching_product_variants shop shopper None None 1 = Inr [tee_match] \<and>
   length [tee_match] \<le> nat 1"
  using matches_sorted_and_truncated [of shop shopper None None 6]
        matches_sorted_and_truncated [of shop shopper None None 1]
  by (simp add: shop_matches slice_to_def)
     (simp add: oxford_match_def tee_match_def)

section \<open>The orchestrator: proofs\<close>

lemma find_snoc:
  "find P (xs @ [y]) = (case find P xs of Some x \<Rightarrow> Some x | None \<Rightarrow> if P y then Some y else None)"
  by (induction xs) auto

lemma unique_loop_find:
  "find (\<lambda>x. product_id (fst x) = k) (unique_loop xs seen acc) =
     (case find (\<lambda>x. product_id (fst x) = k) acc of
        Some y \<Rightarrow> Some y
      | None \<Rightarrow> if k \<in> seen then None else find (\<lambda>x. product_id (fst x) = k) xs)"
proof (induction xs seen acc rule: unique_loop.induct)
  case (1 seen acc)
  show ?case by (simp split: option.splits)
next
  case (2 product priority rest seen acc)
  show ?case
  proof (cases "product_id product \<in> seen")
    case True
    then show ?thesis
      using "2.IH"(2) by (auto split: option.splits)
  next
    case False
    then show ?thesis
      using "2.IH"(1) by (auto simp: find_snoc split: option.splits)
  qed
qed

lemma unique_loop_distinct:
  "distinct (map (\<lambda>x. product_id (fst x)) acc) \<Longrightarrow> (\<lambda>x. product_id (fst x)) ` set acc \<subseteq> seen \<Longrightarrow>
   distinct (map (\<lambda>x. product_id (fst x)) (unique_loop xs seen acc))"
proof (induction xs seen acc rule: unique_loop.induct)
  case (1 seen acc)
  then show ?case by simp
next
  case (2 product priority rest seen acc)
  show ?case
  proof (cases "product_id product \<in> seen")
    case True
    then show ?thesis using "2.IH"(2) "2.prems" by simp
  next
    case False
    have "distinct (map (\<lambda>x. product_id (fst x)) (acc @ [(product, priority)]))"
      using False "2.prems" by auto
    moreover have "(\<lambda>x. product_id (fst x)) ` set (acc @ [(product, priority)])
        \<subseteq> insert (product_id product) seen"
      using "2.prems" by auto
    ultimately show ?thesis using False "2.IH"(1) by simp
  qed
qed

lemma unique_loop_subset: "set (unique_loop xs seen acc) \<subseteq> set acc \<union> set xs"
  by (induction xs seen acc rule: unique_loop.induct) auto

lemma first_occurrences_Cons:
  "rev (remdups (rev (y # ys))) = y # rev (remdups (rev (filter (\<lambda>x. x \<noteq> y) ys)))"
proof -
  have snoc: "remdups (zs @ [y]) = remdups (filter (\<lambda>x. x \<noteq> y) zs) @ [y]" for zs
    by (induction zs) auto
  show ?thesis
    by (simp add: snoc [of "rev ys"] rev_filter)
qed

lemma unique_loop_ids:
  "map (\<lambda>x. product_id (fst x)) (unique_loop xs seen acc) =
     map (\<lambda>x. product_id (fst x)) acc @
     rev (remdups (rev (filter (\<lambda>k. k \<notin> seen) (map (\<lambda>x. product_id (fst x)) xs))))"
proof (induction xs seen acc rule: unique_loop.induct)
  case (1 seen acc)
  show ?case by simp
next
  case (2 product priority rest seen acc)
  show ?case
  proof (cases "product_id product \<in> seen")
    case True
    then show ?thesis
      using "2.IH"(2) by simp
  next
    case False
    have "filter (\<lambda>k. k \<noteq> product_id product)
            (filter (\<lambda>k. k \<notin> seen) (map (\<lambda>x. product_id (fst x)) rest))
          = filter (\<lambda>k. k \<notin> insert (product_id product) seen)
              (map (\<lambda>x. product_id (fst x)) rest)"
      by (simp add: conj_commute)
    then show ?thesis
      using False "2.IH"(1)
      by (simp add: first_occurrences_Cons del: remdups.simps rev.simps)
  qed
qed

lemma distinct_key_once:
  "distinct (map f xs) \<Longrightarrow> y \<in> set xs \<Longrightarrow> filter (\<lambda>x. f x = f y) xs = [y]"
proof (induction xs)
  case Nil
  then show ?case by simp
next
  case (Cons a xs)
  show ?case
  proof (cases "a = y")
    case True
    have "f y \<notin> f ` set xs"
      using Cons.prems(1) True by simp
    then have "filter (\<lambda>x. f x = f y) xs = []"
      unfolding filter_empty_conv by (metis imageI)
    then show ?thesis using True by simp
  next
    case False
    then have "y \<in> set xs" using Cons.prems(2) by simp
    moreover have "f a \<noteq> f y"
      using Cons.prems(1) \<open>y \<in> set xs\<close> by auto
    ultimately show ?thesis using Cons by simp
  qed
qed

lemma unique_loop_once:
  assumes "(p, s) \<in> set recs"
  shows "length (filter (\<lambda>x. product_id (fst x) = product_id p) (unique_loop recs {} [])) = 1"
    and "find (\<lambda>x. product_id (fst x) = product_id p) (unique_loop recs {} []) =
         find (\<lambda>x. product_id (fst x) = product_id p) recs"
proof -
  let ?P = "\<lambda>x. product_id (fst x) = product_id p"
  let ?u = "unique_loop recs {} []"
  show eq: "find ?P ?u = find ?P recs"
    by (simp add: unique_loop_find)
  have "find ?P recs \<noteq> None"
    using assms by (auto simp: find_None_iff)
  then obtain y where "find ?P ?u = Some y"
    using eq by (cases "find ?P ?u") auto
  then have y: "y \<in> set ?u" and key: "product_id (fst y) = product_id p"
    by (auto simp: find_Some_iff)
  have "distinct (map (\<lambda>x. product_id (fst x)) ?u)"
    by (rule unique_loop_distinct) simp_all
  then have "filter (\<lambda>x. product_id (fst x) = product_id (fst y)) ?u = [y]"
    using y by (rule distinct_key_once)
  then show "length (filter ?P ?u) = 1"
    using key by simp
qed

lemma sort_by_priority_descending:
  "i < j \<Longrightarrow> j < length xs \<Longrightarrow>
   snd (sort_by_priority xs ! j) \<le> snd (sort_by_priority xs ! i)"
proof -
  assume ij: "i < j" and j: "j < length xs"
  have "sorted (map (\<lambda>x. - snd x) (sort_by_priority xs))"
    by (simp add: sort_by_priority_def)
  then have "map (\<lambda>x. - snd x) (sort_by_priority xs) ! i
      \<le> map (\<lambda>x. - snd x) (sort_by_priority xs) ! j"
    using ij j by (intro sorted_nth_mono) (simp_all add: sort_by_priority_def)
  then show ?thesis
    using ij j by (simp add: sort_by_priority_def)
qed

lemma sort_by_priority_stable:
  "filter (\<lambda>x. snd x = k) (sort_by_priority xs) = filter (\<lambda>x. snd x = k) xs"
proof -
  have "filter (\<lambda>x. - snd x = - k) (sort_key (\<lambda>x. - snd x) xs) = filter (\<lambda>x. - snd x = - k) xs"
    by (rule sort_key_stable)
  then show ?thesis by (simp add: sort_by_priority_def)
qed

lemma recommend_products_total: "\<exists>out. recommend_products db m skin gender limit = Inr out"
proof -
  obtain rf where "recommend_fit m = Inr rf"
    using recommend_fit_total by blast
  then show ?thesis
    by (simp add: recommend_products_closed)
qed

lemma segment_recommendations_closed:
  "\<forall>g \<in> set genders. recommend_products db ms skin g 10 = Inr (pass g) \<Longrightarrow>
   segment_recommendations db ms skin genders acc = Inr (acc @ concat (map pass genders))"
  by (induction genders arbitrary: acc) simp_all

lemma create_recommendations_closed:
  "\<exists>out. create_recommendations db body_scan ms shape rf colors xs acc = Inr out \<and>
         map (\<lambda>r. (rec_product r, rec_priority r)) out =
           map (\<lambda>r. (rec_product r, rec_priority r)) acc @ xs"
proof (induction xs arbitrary: acc)
  case Nil
  show ?case by simp
next
  case (Cons x xs)
  obtain product priority where x: "x = (product, priority)"
    by (cases x)
  obtain sz where
    sz: "recommend_size_for_garment db ms (product_category product) shape = Inr sz"
    using recommend_size_for_garment_total by blast
  show ?case
    using Cons.IH [of "acc @
             [\<lparr>rec_body_scan = body_scan, rec_product = product,
               rec_recommended_size = sz, rec_recommended_fit = rf,
               rec_recommended_colors = join '', '' (slice_to colors 5),
               rec_priority = priority\<rparr>]"]
    by (simp add: x sz)
qed

lemma generate_closed:
  assumes men: "recommend_products db (scan_measurements body_scan) (scan_skin_tone body_scan)
                  ''men'' 10 = Inr men"
    and women: "recommend_products db (scan_measurements body_scan) (scan_skin_tone body_scan)
                  ''women'' 10 = Inr women"
    and unisex: "recommend_products db (scan_measurements body_scan) (scan_skin_tone body_scan)
                  ''unisex'' 10 = Inr unisex"
  shows "\<exists>out. generate_recommendations_for_scan db body_scan = Inr out \<and>
           map (\<lambda>r. (rec_product r, rec_priority r)) out =
             slice_to (sort_by_priority (unique_loop (men @ women @ unisex) {} [])) 10"
proof -
  obtain rf where rf: "recommend_fit (scan_measurements body_scan) = Inr rf"
    using recommend_fit_total by blast
  have seg: "segment_recommendations db (scan_measurements body_scan) (scan_skin_tone body_scan)
      [''men'', ''women'', ''unisex''] [] = Inr (men @ women @ unisex)"
    by (simp add: men women unisex)
  obtain out where
    "create_recommendations db body_scan (scan_measurements body_scan) (scan_shape body_scan) rf
       (recommend_colors db (scan_skin_tone body_scan) (scan_tone body_scan))
       (slice_to (sort_by_priority (unique_loop (men @ women @ unisex) {} [])) 10) [] = Inr out"
    and "map (\<lambda>r. (rec_product r, rec_priority r)) out =
       slice_to (sort_by_priority (unique_loop (men @ women @ unisex) {} [])) 10"
    using create_recommendations_closed
      [of db body_scan "scan_measurements body_scan" "scan_shape body_scan" rf
          "recommend_colors db (scan_skin_tone body_scan) (scan_tone body_scan)"
          "slice_to (sort_by_priority (unique_loop (men @ women @ unisex) {} [])) 10" "[]"]
    by auto
  then show ?thesis
    by (simp only: generate_recommendations_for_scan_def Let_def rf seg sum.case) blast
qed

text \<open>
  Claim C2. The orchestrator runs the scorer for 'men', 'women' and 'unisex' in this order
  with limit 10 and concatenates the three results. In the deduplicated list every product
  id occurs once, the ids stand in the order of their first occurrence in the
  concatenation, and a product of the concatenation is paired with the score of its first
  occurrence there. The ranked list is a rearrangement of the deduplicated one,
  descending by score, and entries of equal score keep their order of first encounter.
  The records emitted are the first 10 entries of the ranked list, so at most 10.
\<close>

theorem orchestrator_deduplicates:
  "\<exists>men women unisex recs unique ranked out.
     recommend_products db (scan_measurements body_scan) (scan_skin_tone body_scan) ''men'' 10
       = Inr men \<and>
     recommend_products db (scan_measurements body_scan) (scan_skin_tone body_scan) ''women'' 10
       = Inr women \<and>
     recommend_products db (scan_measurements body_scan) (scan_skin_tone body_scan) ''unisex'' 10
       = Inr unisex \<and>
     recs = men @ women @ unisex \<and>
     unique = unique_loop recs {} [] \<and>
     ranked = sort_by_priority unique \<and>
     generate_recommendations_for_scan db body_scan = Inr out \<and>
     set unique \<subseteq> set recs \<and>
     distinct (map (\<lambda>x. product_id (fst x)) unique) \<and>
     map (\<lambda>x. product_id (fst x)) unique =
       rev (remdups (rev (map (\<lambda>x. product_id (fst x)) recs))) \<and>
     (\<forall>(p, s) \<in> set recs.
        length (filter (\<lambda>x. product_id (fst x) = product_id p) unique) = 1 \<and>
        find (\<lambda>x. product_id (fst x) = product_id p) unique =
          find (\<lambda>x. product_id (fst x) = product_id p) recs) \<and>
     set ranked = set unique \<and> length ranked = length unique \<and>
     (\<forall>i j. i < j \<and> j < length ranked \<longrightarrow> snd (ranked ! j) \<le> snd (ranked ! i)) \<and>
     (\<forall>k. filter (\<lambda>x. snd x = k) ranked = filter (\<lambda>x. snd x = k) unique) \<and>
     map (\<lambda>r. (rec_product r, rec_priority r)) out = take 10 ranked \<and>
     length out \<le> 10"
proof -
  let ?ms = "scan_measurements body_scan" and ?skin = "scan_skin_tone body_scan"
  obtain men where men: "recommend_products db ?ms ?skin ''men'' 10 = Inr men"
    using recommend_products_total by blast
  obtain women where women: "recommend_products db ?ms ?skin ''women'' 10 = Inr women"
    using recommend_products_total by blast
  obtain unisex where unisex: "recommend_products db ?ms ?skin ''unisex'' 10 = Inr unisex"
    using recommend_products_total by blast
  define recs where "recs = men @ women @ unisex"
  define unique where "unique = unique_loop recs {} []"
  define ranked where "ranked = sort_by_priority unique"
  obtain out where out: "generate_recommendations_for_scan db body_scan = Inr out"
    and emitted: "map (\<lambda>r. (rec_product r, rec_priority r)) out = take 10 ranked"
    using generate_closed [OF men women unisex]
    by (auto simp: slice_to_def ranked_def unique_def recs_def)
  have sub: "set unique \<subseteq> set recs"
    using unique_loop_subset [of recs "{}" "[]"] by (simp add: unique_def)
  have dist: "distinct (map (\<lambda>x. product_id (fst x)) unique)"
    unfolding unique_def by (rule unique_loop_distinct) simp_all
  have ids: "map (\<lambda>x. product_id (fst x)) unique =
      rev (remdups (rev (map (\<lambda>x. product_id (fst x)) recs)))"
    by (simp add: unique_def unique_loop_ids)
  have once: "\<forall>(p, s) \<in> set recs.
        length (filter (\<lambda>x. product_id (fst x) = product_id p) unique) = 1 \<and>
        find (\<lambda>x. product_id (fst x) = product_id p) unique =
          find (\<lambda>x. product_id (fst x) = product_id p) recs"
    using unique_loop_once unfolding unique_def by blast
  have same: "set ranked = set unique \<and> length ranked = length unique"
    by (simp add: ranked_def sort_by_priority_def)
  have desc: "\<forall>i j. i < j \<and> j < length ranked \<longrightarrow> snd (ranked ! j) \<le> snd (ranked ! i)"
    using sort_by_priority_descending [of _ _ unique] same by (simp add: ranked_def)
  have stable: "\<forall>k. filter (\<lambda>x. snd x = k) ranked = filter (\<lambda>x. snd x = k) unique"
    by (simp add: ranked_def sort_by_priority_stable)
  have len: "length out \<le> 10"
  proof -
    have "length (map (\<lambda>r. (rec_product r, rec_priority r)) out) \<le> 10"
      unfolding emitted by simp
    then show ?thesis by simp
  qed
  have "recommend_products db ?ms ?skin ''men'' 10 = Inr men \<and>
     recommend_products db ?ms ?skin ''women'' 10 = Inr women \<and>
     recommend_products db ?ms ?skin ''unisex'' 10 = Inr unisex \<and>
     recs = men @ women @ unisex \<and>
     unique = unique_loop recs {} [] \<and>
     ranked = sort_by_priority unique \<and>
     generate_recommendations_for_scan db body_scan = Inr out \<and>
     set unique \<subseteq> set recs \<and>
     distinct (map (\<lambda>x. product_id (fst x)) unique) \<and>
     map (\<lambda>x. product_id (fst x)) unique =
       rev (remdups (rev (map (\<lambda>x. product_id (fst x)) recs))) \<and>
     (\<forall>(p, s) \<in> set recs.
        length (filter (\<lambda>x. product_id (fst x) = product_id p) unique) = 1 \<and>
        find (\<lambda>x. product_id (fst x) = product_id p) unique =
          find (\<lambda>x. product_id (fst x) = product_id p) recs) \<and>
     set ranked = set unique \<and> length ranked = length unique \<and>
     (\<forall>i j. i < j \<and> j < length ranked \<longrightarrow> snd (ranked ! j) \<le> snd (ranked ! i)) \<and>
     (\<forall>k. filter (\<lambda>x. snd x = k) ranked = filter (\<lambda>x. snd x = k) unique) \<and>
     map (\<lambda>r. (rec_product r, rec_priority r)) out = take 10 ranked \<and>
     length out \<le> 10"
    by (intro conjI men women unisex recs_def unique_def ranked_def out sub dist ids once
        conjunct1 [OF same] conjunct2 [OF same] desc stable emitted len)
  then show ?thesis
    by (intro exI)
qed

lemma shopper_skin: "scan_skin_tone shopper = ''light''"
  by (simp add: shopper_def)

lemma shop_women:
  "recommend_products shop (scan_measurements shopper) ''light'' ''women'' 10 = Inr [(tee, 40)]"
  unfolding recommend_products_closed [OF shopper_fit] shopper_size shop_palette
  by (simp add: List.map_filter_simps shop_scores sort_by_priority_def slice_to_def)
     (simp add: shop_defs List.map_filter_simps shop_scores [unfolded shop_defs])

lemma shop_unisex:
  "recommend_products shop (scan_measurements shopper) ''light'' ''unisex'' 10 = Inr [(tee, 40)]"
  unfolding recommend_products_closed [OF shopper_fit] shopper_size shop_palette
  by (simp add: List.map_filter_simps shop_scores sort_by_priority_def slice_to_def)
     (simp add: shop_defs List.map_filter_simps shop_scores [unfolded shop_defs])

lemma shop_unique:
  "unique_loop ([(tee, 40), (oxford, 25)] @ [(tee, 40)] @ [(tee, 40)]) {} []
     = [(tee, 40), (oxford, 25)]"
  by (simp add: tee_def oxford_def)

lemma shop_ranked: "sort_by_priority [(tee, 40), (oxford, 25)] = [(tee, 40), (oxford, 25)]"
  by (simp add: sort_by_priority_def)

theorem orchestrator_deduplicates_witness:
  "recommend_products shop (scan_measurements shopper) (scan_skin_tone shopper) ''men'' 10
     = Inr [(tee, 40::int), (oxford, 25::int)] \<and>
   recommend_products shop (scan_measurements shopper) (scan_skin_tone shopper) ''women'' 10
     = Inr [(tee, 40::int)] \<and>
   recommend_products shop (scan_measurements shopper) (scan_skin_tone shopper) ''unisex'' 10
     = Inr [(tee, 40::int)] \<and>
   (tee, 40::int) \<in> set ([(tee, 40::int), (oxford, 25::int)] @ [(tee, 40::int)] @ [(tee, 40::int)]) \<and>
   unique_loop ([(tee, 40::int), (oxford, 25::int)] @ [(tee, 40::int)] @ [(tee, 40::int)]) {} []
     = [(tee, 40::int), (oxford, 25::int)] \<and>
   length (filter (\<lambda>x. product_id (fst x) = product_id tee) [(tee, 40::int), (oxford, 25::int)]) = 1 \<and>
   (0::nat) < 1 \<and> 1 < length [(tee, 40::int), (oxford, 25::int)] \<and>
   snd ([(tee, 40::int), (oxford, 25::int)] ! 1) \<le> snd ([(tee, 40::int), (oxford, 25::int)] ! 0) \<and>
   (\<exists>out. generate_recommendations_for_scan shop shopper = Inr out \<and>
          map (\<lambda>r. (rec_product r, rec_priority r)) out = [(tee, 40::int), (oxford, 25::int)])"
  using orchestrator_deduplicates [of shop shopper]
  by (simp add: shopper_skin shop_men shop_women shop_unisex shop_unique [simplified] shop_ranked)
     (auto simp: tee_def oxford_def)

section \<open>Gender segments: proofs\<close>

subsection \<open>The crowded shop, evaluated\<close>

lemmas crowded_defs = crowded_def men_shirt_def women_blouse_def scarf_def navy_M_def
  shop_def navy_def white_def red_def

lemma crowded_size: "recommend_size crowded (scan_measurements shopper) = ''M''"
  by (simp add: recommend_size_def crowded_def shop_def shopper_measurements dict_get_def
      WIDTH_TO_CIRCUMFERENCE_FACTOR_def Let_def)

lemma crowded_palette:
  "filter (\<lambda>c. color_name c \<in> set (recommend_colors crowded ''light'' (Some ''warm'')))
     (Color_objects crowded) = [navy, white]"
  by (simp add: recommend_colors_def crowded_def shop_def navy_def white_def red_def)

lemma crowded_stock:
  "available_variants crowded p =
     map navy_M (filter (\<lambda>i. i = product_id p)
       [1, 2, 3, 4, 5, 6, 7, 8, 9, 10, 11, 12, 13, 14, 15, 16, 17, 18, 19, 20, 21])"
  by (simp add: available_variants_def crowded_def filter_map comp_def navy_M_def)

lemma crowded_score:
  assumes "product_id p \<in> set [1, 2, 3, 4, 5, 6, 7, 8, 9, 10, 11, 12, 13, 14, 15, 16, 17, 18, 19, 20, 21]"
    and "product_fit_type p = ''regular''"
  shows "score_product crowded ''M'' ''regular'' [navy, white] p = Some 40"
proof -
  have "filter (\<lambda>i. i = product_id p)
       [1, 2, 3, 4, 5, 6, 7, 8, 9, 10, 11, 12, 13, 14, 15, 16, 17, 18, 19, 20, 21] = [product_id p]"
    using assms(1) by auto
  then have "available_variants crowded p = [navy_M (product_id p)]"
    by (simp add: crowded_stock)
  then show ?thesis
    using assms(2) by (simp add: score_product_def Let_def navy_M_def)
qed


lemma map_filter_all:
  "\<forall>x \<in> set xs. f x = Some (g x) \<Longrightarrow> List.map_filter f xs = map g xs"
  by (induction xs) (simp_all add: List.map_filter_simps)

lemma sort_by_priority_constant:
  "sort_by_priority (map (\<lambda>p. (p, c)) ps) = map (\<lambda>p. (p, c)) ps"
proof -
  have "sorted (map (\<lambda>x. - snd x) (map (\<lambda>p. (p, c)) ps))"
    by (induction ps) simp_all
  then show ?thesis
    unfolding sort_by_priority_def by (rule sort_key_id_if_sorted)
qed

lemma crowded_pass:
  assumes "filter (\<lambda>p. product_gender p = gender \<or> product_gender p = ''unisex'')
             (Product_objects crowded) = ps"
    and "\<forall>p \<in> set ps. product_fit_type p = ''regular'' \<and>
           product_id p \<in> set [1, 2, 3, 4, 5, 6, 7, 8, 9, 10, 11, 12, 13, 14, 15, 16, 17, 18, 19, 20, 21]"
  shows "recommend_products crowded (scan_measurements shopper) ''light'' gender 10 =
           Inr (take 10 (map (\<lambda>p. (p, 40)) ps))"
proof -
  have "List.map_filter
          (\<lambda>p. map_option (Pair p) (score_product crowded ''M'' ''regular'' [navy, white] p)) ps
        = map (\<lambda>p. (p, 40)) ps"
    using assms(2) by (intro map_filter_all) (simp add: crowded_score)
  then show ?thesis
    unfolding recommend_products_closed [OF shopper_fit] crowded_size crowded_palette assms(1)
    by (simp add: sort_by_priority_constant slice_to_def)
qed

lemma crowded_men_products:
  "filter (\<lambda>p. product_gender p = ''men'' \<or> product_gender p = ''unisex'')
     (Product_objects crowded) = map men_shirt [1, 2, 3, 4, 5, 6, 7, 8, 9, 10] @ [scarf]"
  by (simp add: crowded_def men_shirt_def women_blouse_def scarf_def)

lemma crowded_women_products:
  "filter (\<lambda>p. product_gender p = ''women'' \<or> product_gender p = ''unisex'')
     (Product_objects crowded) =
     map women_blouse [11, 12, 13, 14, 15, 16, 17, 18, 19, 20] @ [scarf]"
  by (simp add: crowded_def men_shirt_def women_blouse_def scarf_def)

lemma crowded_unisex_products:
  "filter (\<lambda>p. product_gender p = ''unisex'' \<or> product_gender p = ''unisex'')
     (Product_objects crowded) = [scarf]"
  by (simp add: crowded_def men_shirt_def women_blouse_def scarf_def)

lemma crowded_men:
  "recommend_products crowded (scan_measurements shopper) ''light'' ''men'' 10 =
     Inr (map (\<lambda>i. (men_shirt i, 40)) [1, 2, 3, 4, 5, 6, 7, 8, 9, 10])"
  using crowded_pass [OF crowded_men_products]
  by (simp add: men_shirt_def scarf_def)

lemma crowded_women:
  "recommend_products crowded (scan_measurements shopper) ''light'' ''women'' 10 =
     Inr (map (\<lambda>i. (women_blouse i, 40)) [11, 12, 13, 14, 15, 16, 17, 18, 19, 20])"
  using crowded_pass [OF crowded_women_products]
  by (simp add: women_blouse_def scarf_def)

lemma crowded_unisex:
  "recommend_products crowded (scan_measurements shopper) ''light'' ''unisex'' 10 =
     Inr [(scarf, 40)]"
  using crowded_pass [OF crowded_unisex_products]
  by (simp add: scarf_def)

subsection \<open>What a pass returns\<close>

lemma length_map_filter:
  "length (List.map_filter f xs) = length (filter (\<lambda>x. f x \<noteq> None) xs)"
  by (induction xs) (auto simp: List.map_filter_simps split: option.splits)

lemma slice_to_all: "int (length xs) \<le> limit \<Longrightarrow> slice_to xs limit = xs"
  by (simp add: slice_to_def)

lemma find_app:
  "find P (xs @ ys) = (case find P xs of Some x \<Rightarrow> Some x | None \<Rightarrow> find P ys)"
  by (induction xs) auto

lemma score_product_None:
  "score_product db rs rf rc p = None \<longleftrightarrow> available_variants db p = []"
  by (simp add: score_product_formula)

lemma pass_contents:
  fixes db :: catalogue
  defines "eligible \<equiv> \<lambda>g. filter (\<lambda>p. (product_gender p = g \<or> product_gender p = ''unisex'') \<and>
                                       available_variants db p \<noteq> []) (Product_objects db)"
  shows "\<exists>out. recommend_products db ms skin g limit = Inr out \<and>
           fst ` set out \<subseteq> set (eligible g) \<and>
           (int (length (eligible g)) \<le> limit \<longrightarrow> fst ` set out = set (eligible g))"
proof -
  obtain rf where rf: "recommend_fit ms = Inr rf"
    using recommend_fit_total by blast
  define rc where "rc = filter (\<lambda>c. color_name c \<in> set (recommend_colors db skin (Some ''warm'')))
                          (Color_objects db)"
  define f where "f = (\<lambda>p. map_option (Pair p) (score_product db (recommend_size db ms) rf rc p))"
  define ps where "ps = filter (\<lambda>p. product_gender p = g \<or> product_gender p = ''unisex'')
                          (Product_objects db)"
  define scored where "scored = List.map_filter f ps"
  define out where "out = slice_to (sort_by_priority scored) limit"
  have res: "recommend_products db ms skin g limit = Inr out"
    unfolding recommend_products_closed [OF rf] out_def scored_def f_def ps_def rc_def ..
  have none: "f p = None \<longleftrightarrow> available_variants db p = []" for p
    by (simp add: f_def score_product_None)
  have fst_f: "f p = Some y \<Longrightarrow> fst y = p" for p y
    by (auto simp: f_def)
  have scored_set: "fst ` set scored = set (eligible g)"
  proof (rule set_eqI)
    fix p
    have "p \<in> fst ` set scored \<longleftrightarrow> (\<exists>y. y \<in> set scored \<and> fst y = p)"
      by force
    also have "\<dots> \<longleftrightarrow> (\<exists>y. (\<exists>q \<in> set ps. f q = Some y) \<and> fst y = p)"
      by (simp add: scored_def in_set_map_filter)
    also have "\<dots> \<longleftrightarrow> p \<in> set ps \<and> f p \<noteq> None"
      using fst_f by (metis not_Some_eq)
    also have "\<dots> \<longleftrightarrow> p \<in> set (eligible g)"
      by (auto simp: none ps_def eligible_def simp del: not_None_eq)
    finally show "p \<in> fst ` set scored \<longleftrightarrow> p \<in> set (eligible g)" .
  qed
  have "set out \<subseteq> set scored"
    using set_slice_to [of "sort_by_priority scored" limit]
    by (simp add: out_def set_sort_by_priority)
  then have sub: "fst ` set out \<subseteq> set (eligible g)"
    using scored_set by blast
  have len: "length scored = length (eligible g)"
  proof -
    have "filter (\<lambda>p. f p \<noteq> None) ps = eligible g"
      by (simp add: none ps_def eligible_def conj_commute del: not_None_eq)
    then show ?thesis
      by (simp add: scored_def length_map_filter)
  qed
  have full: "fst ` set out = set (eligible g)" if "int (length (eligible g)) \<le> limit"
  proof -
    have "int (length (sort_by_priority scored)) \<le> limit"
      using that len by (simp add: sort_by_priority_def)
    then have "out = sort_by_priority scored"
      unfolding out_def by (rule slice_to_all)
    then show ?thesis
      using scored_set by (simp add: set_sort_by_priority)
  qed
  show ?thesis
    using res sub full by blast
qed

text \<open>
  Claim C9, as the code has it. \<open>recommend_products\<close> for a gender \<open>g\<close> returns only
  products whose gender is \<open>g\<close> or 'unisex' and that have an in-stock variant, and it
  returns all of them when their number is at most the limit. So in the orchestrator's
  loop a unisex product with an in-stock variant is in the result of the 'men' pass, and
  the entry kept for its id is the one of the 'men' pass, whenever at most 10 in-stock
  products have the gender 'men' or 'unisex'.
\<close>

theorem segment_pass_includes_unisex:
  fixes db :: catalogue
  defines "eligible \<equiv> \<lambda>g. filter (\<lambda>p. (product_gender p = g \<or> product_gender p = ''unisex'') \<and>
                                       available_variants db p \<noteq> []) (Product_objects db)"
  shows "(\<exists>out. recommend_products db ms skin g limit = Inr out \<and>
            fst ` set out \<subseteq> set (eligible g) \<and>
            (int (length (eligible g)) \<le> limit \<longrightarrow> fst ` set out = set (eligible g))) \<and>
         (p \<in> set (Product_objects db) \<and> product_gender p = ''unisex'' \<and>
          available_variants db p \<noteq> [] \<and> length (eligible ''men'') \<le> 10 \<longrightarrow>
            (\<exists>men women unisex s.
               recommend_products db ms skin ''men'' 10 = Inr men \<and>
               recommend_products db ms skin ''women'' 10 = Inr women \<and>
               recommend_products db ms skin ''unisex'' 10 = Inr unisex \<and>
               (p, s) \<in> set men \<and>
               find (\<lambda>x. product_id (fst x) = product_id p) men \<noteq> None \<and>
               find (\<lambda>x. product_id (fst x) = product_id p)
                 (unique_loop (men @ women @ unisex) {} []) =
               find (\<lambda>x. product_id (fst x) = product_id p) men))"
proof (rule conjI [OF _ impI])
  show "\<exists>out. recommend_products db ms skin g limit = Inr out \<and>
            fst ` set out \<subseteq> set (eligible g) \<and>
            (int (length (eligible g)) \<le> limit \<longrightarrow> fst ` set out = set (eligible g))"
    unfolding eligible_def by (rule pass_contents)
next
  assume h: "p \<in> set (Product_objects db) \<and> product_gender p = ''unisex'' \<and>
          available_variants db p \<noteq> [] \<and> length (eligible ''men'') \<le> 10"
  obtain men where men: "recommend_products db ms skin ''men'' 10 = Inr men"
    and all: "int (length (eligible ''men'')) \<le> 10 \<longrightarrow> fst ` set men = set (eligible ''men'')"
    using pass_contents [of db ms skin "''men''" 10] unfolding eligible_def by blast
  obtain women where women: "recommend_products db ms skin ''women'' 10 = Inr women"
    using recommend_products_total by blast
  obtain unisex where unisex: "recommend_products db ms skin ''unisex'' 10 = Inr unisex"
    using recommend_products_total by blast
  have "p \<in> set (eligible ''men'')"
    using h by (simp add: eligible_def)
  moreover have "fst ` set men = set (eligible ''men'')"
    using all h by simp
  ultimately obtain s where s: "(p, s) \<in> set men"
    by force
  let ?P = "\<lambda>x. product_id (fst x) = product_id p"
  have found: "find ?P men \<noteq> None"
    using s by (auto simp: find_None_iff)
  have "find ?P (unique_loop (men @ women @ unisex) {} []) = find ?P (men @ women @ unisex)"
    by (simp add: unique_loop_find)
  also have "\<dots> = find ?P men"
    using found by (auto simp: find_app split: option.splits)
  finally have kept: "find ?P (unique_loop (men @ women @ unisex) {} []) = find ?P men" .
  show "\<exists>men women unisex s.
               recommend_products db ms skin ''men'' 10 = Inr men \<and>
               recommend_products db ms skin ''women'' 10 = Inr women \<and>
               recommend_products db ms skin ''unisex'' 10 = Inr unisex \<and>
               (p, s) \<in> set men \<and>
               find (\<lambda>x. product_id (fst x) = product_id p) men \<noteq> None \<and>
               find (\<lambda>x. product_id (fst x) = product_id p)
                 (unique_loop (men @ women @ unisex) {} []) =
               find (\<lambda>x. product_id (fst x) = product_id p) men"
    using men women unisex s found kept by blast
qed

lemma shop_eligible_men:
  "filter (\<lambda>p. (product_gender p = ''men'' \<or> product_gender p = ''unisex'') \<and>
                available_variants shop p \<noteq> []) (Product_objects shop) = [oxford, tee]"
proof -
  have "Product_objects shop = [oxford, tee, chino]"
    by (simp add: shop_def)
  then show ?thesis
    by (simp add: shop_available) (simp add: oxford_def tee_def chino_def)
qed

theorem segment_pass_includes_unisex_witness:
  "recommend_products shop (scan_measurements shopper) ''light'' ''men'' 10
     = Inr [(tee, 40), (oxford, 25)] \<and>
   int (length (filter (\<lambda>p. (product_gender p = ''men'' \<or> product_gender p = ''unisex'') \<and>
                             available_variants shop p \<noteq> []) (Product_objects shop))) \<le> 10 \<and>
   fst ` set [(tee, 40::int), (oxford, 25)] =
     set (filter (\<lambda>p. (product_gender p = ''men'' \<or> product_gender p = ''unisex'') \<and>
                       available_variants shop p \<noteq> []) (Product_objects shop)) \<and>
   tee \<in> set (Product_objects shop) \<and> product_gender tee = ''unisex'' \<and>
   available_variants shop tee \<noteq> [] \<and>
   (tee, 40) \<in> set [(tee, 40::int), (oxford, 25)] \<and>
   find (\<lambda>x. product_id (fst x) = product_id tee)
     (unique_loop ([(tee, 40), (oxford, 25)] @ [(tee, 40)] @ [(tee, 40)]) {} []) =
   Some (tee, 40)"
  using segment_pass_includes_unisex
          [of shop "scan_measurements shopper" "''light''" "''men''" 10 tee]
  by (simp add: shop_men shop_women shop_unisex shop_eligible_men shop_available
        shop_unique [simplified])
     (auto simp: shop_def tee_def oxford_def)

text \<open>
  Claim C9 as stated fails in the crowded shop: the scarf is unisex and in stock, but the
  'men' pass returns the ten shirts and the 'women' pass the ten blouses, so the scarf is
  first met in the 'unisex' pass.
\<close>

theorem unisex_product_first_met_in_unisex_pass:
  "scarf \<in> set (Product_objects crowded) \<and> product_gender scarf = ''unisex'' \<and>
   available_variants crowded scarf \<noteq> [] \<and>
   recommend_products crowded (scan_measurements shopper) (scan_skin_tone shopper) ''men'' 10 =
     Inr (map (\<lambda>i. (men_shirt i, 40)) [1, 2, 3, 4, 5, 6, 7, 8, 9, 10]) \<and>
   scarf \<notin> fst ` set (map (\<lambda>i. (men_shirt i, 40::int)) [1, 2, 3, 4, 5, 6, 7, 8, 9, 10]) \<and>
   recommend_products crowded (scan_measurements shopper) (scan_skin_tone shopper) ''women'' 10 =
     Inr (map (\<lambda>i. (women_blouse i, 40)) [11, 12, 13, 14, 15, 16, 17, 18, 19, 20]) \<and>
   scarf \<notin> fst ` set (map (\<lambda>i. (women_blouse i, 40::int))
                        [11, 12, 13, 14, 15, 16, 17, 18, 19, 20]) \<and>
   recommend_products crowded (scan_measurements shopper) (scan_skin_tone shopper) ''unisex'' 10 =
     Inr [(scarf, 40)]"
  by (simp add: shopper_skin crowded_men crowded_women crowded_unisex crowded_stock)
     (simp add: crowded_def scarf_def men_shirt_def women_blouse_def)

end
